theory Spec2Isabelle
  imports Main "HOL-Library.Word"
begin

section \<open>JSON-RPC data\<close>

text \<open>
  The gateway handles values of the darknode library's package \<open>jsonrpc\<close>. Go strings
  and byte slices are both sequences of bytes, so both are \<open>string\<close> here. A
  \<open>json.RawMessage\<close> may be the nil slice, which is \<open>None\<close>.
  The \<open>ID\<close> of a request is an \<open>interface{}\<close>. After JSON decoding it holds nil,
  a \<open>float64\<close> (here its 64 bits), a string, a bool, or an array or object (here its
  JSON text); the handler itself passes the Go \<open>int\<close> 0 as the ID of the responses
  that answer a whole body.
\<close>

type_synonym bytes = string

type_synonym RawMessage = "bytes option"

datatype json_id =
    IdNull
  | IdNum int
  | IdFloat "64 word"
  | IdStr string
  | IdBool bool
  | IdComposite bytes

record request =
  Version :: string
  ID :: json_id
  Method :: string
  Params :: RawMessage

record rpc_error =
  Code :: int
  Message :: string
  Data :: RawMessage

record response =
  rVersion :: string
  rID :: json_id
  Result :: RawMessage
  Error :: "rpc_error option"

text \<open>\<open>jsonrpc.Response{}\<close>, the zero value of the struct.\<close>

definition zero_Response :: response where
  "zero_Response = \<lparr>rVersion = [], rID = IdNull, Result = None, Error = None\<rparr>"

text \<open>
  Modelled from the spec: the constructors \<open>jsonrpc.NewError\<close> and
  \<open>jsonrpc.NewResponse\<close> of the darknode library are missing. A response is
  \<open>{version: "2.0", id, result?, error?}\<close> and an error is \<open>{code, message, data?}\<close>.
\<close>

definition NewError :: "int \<Rightarrow> string \<Rightarrow> RawMessage \<Rightarrow> rpc_error" where
  "NewError code message data = \<lparr>Code = code, Message = message, Data = data\<rparr>"

definition NewResponse :: "json_id \<Rightarrow> RawMessage \<Rightarrow> rpc_error option \<Rightarrow> response" where
  "NewResponse id' result err = \<lparr>rVersion = ''2.0'', rID = id', Result = result, Error = err\<rparr>"

text \<open>
  Modelled from the spec: the method names and the table \<open>jsonrpc.RPCs\<close> of known
  methods are missing; the spec lists the eight methods the pipeline routes on.
\<close>

definition MethodQueryBlock :: string where "MethodQueryBlock = ''ren_queryBlock''"
definition MethodQueryBlocks :: string where "MethodQueryBlocks = ''ren_queryBlocks''"
definition MethodQueryNumPeers :: string where "MethodQueryNumPeers = ''ren_queryNumPeers''"
definition MethodQueryPeers :: string where "MethodQueryPeers = ''ren_queryPeers''"
definition MethodQueryEpoch :: string where "MethodQueryEpoch = ''ren_queryEpoch''"
definition MethodQueryStat :: string where "MethodQueryStat = ''ren_queryStat''"
definition MethodSubmitTx :: string where "MethodSubmitTx = ''ren_submitTx''"
definition MethodQueryTx :: string where "MethodQueryTx = ''ren_queryTx''"

definition RPCs :: "string list" where
  "RPCs = [MethodQueryBlock, MethodQueryBlocks, MethodQueryNumPeers, MethodQueryPeers,
           MethodQueryEpoch, MethodQueryStat, MethodSubmitTx, MethodQueryTx]"

text \<open>
  Modelled from the spec: the error codes of package \<open>jsonrpc\<close> are missing; the
  spec's table of codes gives their values.
\<close>

definition ErrorCodeInvalidJSON :: int where "ErrorCodeInvalidJSON = - 32700"
definition ErrorCodeInvalidRequest :: int where "ErrorCodeInvalidRequest = - 32600"
definition ErrorCodeMethodNotFound :: int where "ErrorCodeMethodNotFound = - 32601"
definition ErrorCodeInvalidParams :: int where "ErrorCodeInvalidParams = - 32602"
definition ErrorCodeInternal :: int where "ErrorCodeInternal = - 32603"
definition ErrorCodeResultNotFound :: int where "ErrorCodeResultNotFound = - 32604"

text \<open>The implementation specific codes declared in \<open>http/server.go\<close>.\<close>

definition ErrorCodeMaxBatchSizeExceeded :: int where "ErrorCodeMaxBatchSizeExceeded = - 32001"
definition ErrorCodeRateLimitExceeded :: int where "ErrorCodeRateLimitExceeded = - 32002"
definition ErrorCodeForwardingError :: int where "ErrorCodeForwardingError = - 32003"
definition ErrorCodeTimeout :: int where "ErrorCodeTimeout = - 32004"

section \<open>Messages, channels and effects\<close>

text \<open>
  A Go channel is identified by a number; \<open>make(chan jsonrpc.Response, n)\<close> takes the
  next unused number from the allocator, so two \<open>make\<close> calls never return the same
  channel. What a handler does to the outside is recorded as a list of effects, in
  program order.
\<close>

type_synonym chan = nat

record RequestWithResponder =
  Request :: request
  Responder :: chan
  DarknodeID :: string

text \<open>A \<open>phi.Message\<close> is an interface: an envelope, or a value of some other type.\<close>

datatype message = Msg RequestWithResponder | OtherMessage

text \<open>A Go panic, with what identifies it.\<close>

datatype error =
    UnexpectedMessageType
  | UnsupportedMethod string
  | InsertFailed
  | IndexOutOfRange
  | PortNotSet

definition make_chan :: "nat \<Rightarrow> chan \<times> nat" where
  "make_chan heap = (heap, Suc heap)"

section \<open>The cacher (cacher/cacher.go)\<close>

text \<open>
  \<open>type ID [32]byte\<close>: an array of exactly 32 bytes. \<open>sha3.Sum256\<close> is a function
  of the Go library from byte slices to such arrays; the definitions below take it as
  the parameter \<open>sum256\<close>.
\<close>

typedef ID = "{bs :: bytes. length bs = 32}"
  by (rule exI [of _ "replicate 32 (CHR 0x00)"]) simp

setup_lifting type_definition_ID

lift_definition ID_String :: "ID \<Rightarrow> string" is "\<lambda>bs. take 32 bs" .

text \<open>A stand-in for the hash in concrete runs: the first 32 bytes, padded with zeros.\<close>

lift_definition pad32 :: "bytes \<Rightarrow> ID" is "\<lambda>bs. take 32 (bs @ replicate 32 (CHR 0x00))"
  by simp

definition hash :: "(bytes \<Rightarrow> ID) \<Rightarrow> bytes \<Rightarrow> ID" where
  "hash sum256 data = sum256 data"

text \<open>\<open>json.RawMessage.MarshalJSON\<close>: the bytes themselves, \<open>null\<close> for the nil slice.\<close>

definition MarshalJSON :: "RawMessage \<Rightarrow> bytes" where
  "MarshalJSON m = (case m of None \<Rightarrow> ''null'' | Some bs \<Rightarrow> bs)"

text \<open>
  Modelled from the spec: the TTL table of the \<open>kv\<close> library is missing. An entry is
  a response with the time it expires at; the lifetime is fixed when the table is made;
  an entry whose time has passed is a miss; there is no delete.
\<close>

record ttl_table =
  entries :: "string \<rightharpoonup> response \<times> nat"
  lifetime :: nat

definition NewTTLCache :: "nat \<Rightarrow> ttl_table" where
  "NewTTLCache ttl = \<lparr>entries = Map.empty, lifetime = ttl\<rparr>"

definition kv_Get :: "nat \<Rightarrow> ttl_table \<Rightarrow> string \<Rightarrow> response option" where
  "kv_Get now t key =
     (case entries t key of
        None \<Rightarrow> None
      | Some (r, expires_at) \<Rightarrow> if now < expires_at then Some r else None)"

definition kv_Insert :: "nat \<Rightarrow> ttl_table \<Rightarrow> string \<Rightarrow> response \<Rightarrow> error + ttl_table" where
  "kv_Insert now t key r = Inr (t\<lparr>entries := (entries t)(key \<mapsto> (r, now + lifetime t))\<rparr>)"

record Cacher =
  ttlCache :: ttl_table

definition New_Cacher :: "nat \<Rightarrow> Cacher" where
  "New_Cacher ttl = \<lparr>ttlCache = NewTTLCache ttl\<rparr>"

definition cacher_insert ::
  "nat \<Rightarrow> Cacher \<Rightarrow> ID \<Rightarrow> string \<Rightarrow> response \<Rightarrow> string \<Rightarrow> error + Cacher" where
  "cacher_insert now cacher reqID darknodeID resp method =
     (let id' = ID_String reqID @ darknodeID in
      case kv_Insert now (ttlCache cacher) id' resp of
        Inl err \<Rightarrow> Inl InsertFailed
      | Inr t \<Rightarrow> Inr (cacher\<lparr>ttlCache := t\<rparr>))"

definition cacher_get :: "nat \<Rightarrow> Cacher \<Rightarrow> ID \<Rightarrow> string \<Rightarrow> response \<times> bool" where
  "cacher_get now cacher reqID darknodeID =
     (let id' = ID_String reqID @ darknodeID in
      case kv_Get now (ttlCache cacher) id' of
        Some resp \<Rightarrow> (resp, True)
      | None \<Rightarrow> (zero_Response, False))"

definition isCachable :: "string \<Rightarrow> error + bool" where
  "isCachable method =
     (if method = MethodQueryBlock \<or> method = MethodQueryBlocks
         \<or> method = MethodQueryNumPeers \<or> method = MethodQueryPeers
         \<or> method = MethodQueryEpoch \<or> method = MethodQueryStat
      then Inr True
      else if method = MethodSubmitTx \<or> method = MethodQueryTx
      then Inr False
      else Inl (UnsupportedMethod method))"

text \<open>
  The goroutine that \<open>Handle\<close> starts on a miss: the channel it receives from, and the
  variables it has captured.
\<close>

record goroutine =
  awaits :: chan
  g_reqID :: ID
  g_msg :: RequestWithResponder

datatype effect =
    MakeChan chan nat
  | ChanSend chan response
  | TaskSend message
  | Go goroutine

text \<open>
  The first lines of \<open>Cacher.Handle\<close>: the params are marshalled, the method name is
  appended, and the result is hashed.
\<close>

definition request_ID :: "(bytes \<Rightarrow> ID) \<Rightarrow> request \<Rightarrow> ID" where
  "request_ID sum256 req =
     (let params = MarshalJSON (Params req);
          data = params @ Method req
      in hash sum256 data)"

text \<open>
  \<open>Cacher.Handle\<close>, up to its return. \<open>now\<close> is the time of the call and \<open>heap\<close> the
  channel allocator. The result of \<open>dispatcher.Send\<close> is dropped by the code.
\<close>

definition cacher_Handle ::
  "(bytes \<Rightarrow> ID) \<Rightarrow> nat \<Rightarrow> Cacher \<Rightarrow> nat \<Rightarrow> message \<Rightarrow> error + (effect list \<times> nat)" where
  "cacher_Handle sum256 now cacher heap m =
     (case m of
        OtherMessage \<Rightarrow> Inl UnexpectedMessageType
      | Msg msg \<Rightarrow>
          (let reqID = request_ID sum256 (Request msg)
           in case isCachable (Method (Request msg)) of
                Inl e \<Rightarrow> Inl e
              | Inr cachable \<Rightarrow>
                  (let (resp, cached) = cacher_get now cacher reqID (DarknodeID msg) in
                   if cachable \<and> cached then Inr ([ChanSend (Responder msg) resp], heap)
                   else
                     (let (responder, heap') = make_chan heap in
                      Inr ([MakeChan responder 1,
                            TaskSend (Msg \<lparr>Request = Request msg, Responder = responder,
                                           DarknodeID = DarknodeID msg\<rparr>),
                            Go \<lparr>awaits = responder, g_reqID = reqID, g_msg = msg\<rparr>],
                           heap')))))"

text \<open>
  The body of the goroutine, run when \<open>resp\<close> is received from the channel it waits on,
  at time \<open>now\<close>.
\<close>

definition cacher_goroutine ::
  "nat \<Rightarrow> Cacher \<Rightarrow> goroutine \<Rightarrow> response \<Rightarrow> error + (effect list \<times> Cacher)" where
  "cacher_goroutine now cacher g resp =
     (case cacher_insert now cacher (g_reqID g) (DarknodeID (g_msg g)) resp
             (Method (Request (g_msg g))) of
        Inl e \<Rightarrow> Inl e
      | Inr cacher' \<Rightarrow> Inr ([ChanSend (Responder (g_msg g)) resp], cacher'))"

section \<open>The dispatcher\<close>

type_synonym MultiAddress = string

record Dispatcher =
  addrs :: "MultiAddress list"
  timeout :: nat

definition New_Dispatcher :: "nat \<Rightarrow> Dispatcher" where
  "New_Dispatcher t = \<lparr>addrs = [], timeout = t\<rparr>"

text \<open>\<open>dispatcher.addrs[0]\<close> panics when the slice is empty.\<close>

definition multiAddrs :: "Dispatcher \<Rightarrow> string \<Rightarrow> error + MultiAddress list" where
  "multiAddrs dispatcher method =
     (case addrs dispatcher of
        [] \<Rightarrow> Inl IndexOutOfRange
      | a # rest \<Rightarrow> Inr [a])"

datatype ResponseIterator = FirstResponseIterator

definition NewFirstResponseIterator :: ResponseIterator where
  "NewFirstResponseIterator = FirstResponseIterator"

definition responseIterator :: "Dispatcher \<Rightarrow> string \<Rightarrow> ResponseIterator" where
  "responseIterator dispatcher method = NewFirstResponseIterator"

fun update :: "ResponseIterator \<Rightarrow> response \<Rightarrow> bool \<Rightarrow> bool \<times> response" where
  "update FirstResponseIterator res final = (True, res)"

text \<open>
  The channel \<open>responses\<close>: one value per target, in the order the calls come back
  (\<open>arrival\<close> lists the indices of the targets in that order), the zero response where
  the call failed. \<open>SendToDarknode\<close> belongs to the client package and is the
  parameter \<open>send\<close>; \<open>None\<close> is a call that returned an error.
\<close>

definition backend_responses ::
  "(nat \<Rightarrow> MultiAddress \<Rightarrow> request \<Rightarrow> response option) \<Rightarrow> Dispatcher \<Rightarrow>
   MultiAddress list \<Rightarrow> request \<Rightarrow> nat list \<Rightarrow> response list" where
  "backend_responses send dispatcher as req arrival =
     map (\<lambda>i. case send (timeout dispatcher) (as ! i) req of
                 None \<Rightarrow> zero_Response
               | Some resp \<Rightarrow> resp) arrival"

text \<open>The loop \<open>for res := range responses\<close>; \<open>None\<close> when the channel closes first.\<close>

fun range_responses ::
  "ResponseIterator \<Rightarrow> nat \<Rightarrow> nat \<Rightarrow> response list \<Rightarrow> response option" where
  "range_responses resIter i n [] = None"
| "range_responses resIter i n (res # rest) =
     (let (done, resp) = update resIter res (i = n) in
      if done then Some resp else range_responses resIter (i + 1) n rest)"

text \<open>\<open>Dispatcher.Handle\<close> from the fan-out on, for the target list \<open>as\<close>.\<close>

definition dispatch ::
  "(nat \<Rightarrow> MultiAddress \<Rightarrow> request \<Rightarrow> response option) \<Rightarrow> nat list \<Rightarrow> Dispatcher \<Rightarrow>
   RequestWithResponder \<Rightarrow> MultiAddress list \<Rightarrow> effect list" where
  "dispatch send arrival dispatcher msg as =
     (let resIter = responseIterator dispatcher (Method (Request msg));
          responses = backend_responses send dispatcher as (Request msg) arrival
      in case range_responses resIter 1 (length as) responses of
           Some resp \<Rightarrow> [ChanSend (Responder msg) resp]
         | None \<Rightarrow> [ChanSend (Responder msg) zero_Response])"

definition dispatcher_Handle ::
  "(nat \<Rightarrow> MultiAddress \<Rightarrow> request \<Rightarrow> response option) \<Rightarrow> nat list \<Rightarrow> Dispatcher \<Rightarrow>
   message \<Rightarrow> error + effect list" where
  "dispatcher_Handle send arrival dispatcher m =
     (case m of
        OtherMessage \<Rightarrow> Inl UnexpectedMessageType
      | Msg msg \<Rightarrow>
          (case multiAddrs dispatcher (Method (Request msg)) of
             Inl e \<Rightarrow> Inl e
           | Inr as \<Rightarrow> Inr (dispatch send arrival dispatcher msg as)))"

section \<open>The HTTP server (http/server.go)\<close>

record Options =
  Port :: string
  MaxBatchSize :: int
  Timeout :: nat

definition SetZeroToDefault :: "Options \<Rightarrow> error + Options" where
  "SetZeroToDefault opts =
     (if Port opts = [] then Inl PortNotSet
      else
        (let o1 = (if MaxBatchSize opts = 0 then opts\<lparr>MaxBatchSize := 10\<rparr> else opts);
             o2 = (if Timeout o1 = 0 then o1\<lparr>Timeout := 15 * 1000000000\<rparr> else o1)
         in Inr o2))"

text \<open>What the handler has written to the \<open>http.ResponseWriter\<close>.\<close>

datatype http_body = Single response | Array "response list"

record ResponseWriter =
  content_type :: string
  status :: nat
  body :: http_body

record http_Request =
  Body :: bytes
  RemoteAddr :: string
  query_id :: string

text \<open>
  The functions of other packages that the handler calls are parameters:
  \<open>RateLimiter.Allow\<close> (its state has the type \<open>'rl\<close>), \<open>net.SplitHostPort\<close>, and the
  three uses of \<open>encoding/json\<close>: decoding the body into a raw message, unmarshalling
  that into a list of requests, and into one request. \<open>None\<close> is a returned error.
  The last is the text that the verb \<open>%v\<close> of \<open>fmt.Sprintf\<close> gives for an ID.
\<close>

record 'rl externals =
  Allow :: "'rl \<Rightarrow> string \<Rightarrow> string \<Rightarrow> bool \<times> 'rl"
  SplitHostPort :: "string \<Rightarrow> (string \<times> string) option"
  Decode :: "bytes \<Rightarrow> bytes option"
  Unmarshal_requests :: "bytes \<Rightarrow> request list option"
  Unmarshal_request :: "bytes \<Rightarrow> request option"
  Sprint_ID :: "json_id \<Rightarrow> string"

text \<open>The verb \<open>%v\<close> of \<open>fmt.Sprintf\<close> on a Go \<open>int\<close>: its decimal digits.\<close>

definition digit :: "nat \<Rightarrow> char" where
  "digit d = ''0123456789'' ! d"

fun digits :: "nat \<Rightarrow> string" where
  "digits n = (if n < 10 then [digit n] else digits (n div 10) @ [digit (n mod 10)])"

declare digits.simps [simp del]

definition fmt_int :: "int \<Rightarrow> string" where
  "fmt_int i = (if i < 0 then CHR ''-'' # digits (nat (- i)) else digits (nat i))"

definition errResponse :: "int \<Rightarrow> json_id \<Rightarrow> string \<Rightarrow> RawMessage \<Rightarrow> response" where
  "errResponse code id' message data =
     (let err = NewError code message data in NewResponse id' None (Some err))"

definition writeError :: "json_id \<Rightarrow> rpc_error \<Rightarrow> ResponseWriter" where
  "writeError id' err =
     (let statusCode =
            (if Code err = ErrorCodeInvalidJSON \<or> Code err = ErrorCodeInvalidParams
                \<or> Code err = ErrorCodeInvalidRequest then 400
             else if Code err = ErrorCodeMethodNotFound \<or> Code err = ErrorCodeResultNotFound
             then 404
             else 500)
      in \<lparr>content_type = ''application/json'', status = statusCode,
          body = Single (NewResponse id' None (Some err))\<rparr>)"

definition writeResponses :: "response list \<Rightarrow> ResponseWriter" where
  "writeResponses responses =
     (if length responses = 1 then
        (case Error (responses ! 0) of
           Some err \<Rightarrow> writeError (rID (responses ! 0)) err
         | None \<Rightarrow> \<lparr>content_type = ''application/json'', status = 200,
                     body = Single (responses ! 0)\<rparr>)
      else \<lparr>content_type = ''application/json'', status = 200, body = Array responses\<rparr>)"

definition NewRequestWithResponder ::
  "request \<Rightarrow> string \<Rightarrow> nat \<Rightarrow> RequestWithResponder \<times> effect list \<times> nat" where
  "NewRequestWithResponder req darknodeAddr heap =
     (let (responder, heap') = make_chan heap in
      (\<lparr>Request = req, Responder = responder, DarknodeID = darknodeAddr\<rparr>,
       [MakeChan responder 1], heap'))"

text \<open>
  What one task of the batch meets: whether the validator's mailbox took the envelope,
  and which case of the \<open>select\<close> fired (with the response received in the second),
  or \<open>Blocked\<close> when none of the three channels ever becomes ready. The timer
  channel of \<open>time.After\<close> is shared by the tasks of a batch and delivers one value.
\<close>

datatype select_outcome = TimerFired | Received response | ContextDone | Blocked

record task_env =
  validator_ok :: bool
  selected :: select_outcome

record 'rl state =
  rateLimiter :: 'rl
  allocator :: nat
  effects :: "effect list"

text \<open>
  The function given to \<open>phi.ParForAll\<close>, for the request \<open>req = reqs[i]\<close>. It
  returns the value it assigns to \<open>responses[i]\<close>; \<open>None\<close> is a task that waits in
  the \<open>select\<close> for ever and assigns nothing.
\<close>

definition task ::
  "'rl externals \<Rightarrow> http_Request \<Rightarrow> string \<Rightarrow> request \<Rightarrow> task_env \<Rightarrow> 'rl state \<Rightarrow>
   response option \<times> 'rl state" where
  "task ext r darknodeID req env st =
     (let method = Method req in
      if method \<notin> set RPCs
      then (Some (errResponse ErrorCodeMethodNotFound (ID req) ''unsupported method'' None), st)
      else
        (let host = (case SplitHostPort ext (RemoteAddr r) of
                       None \<Rightarrow> RemoteAddr r
                     | Some (h, port) \<Rightarrow> h);
             (allowed, rl) = Allow ext (rateLimiter st) method host;
             st1 = st\<lparr>rateLimiter := rl\<rparr>
         in if \<not> allowed
            then (Some (errResponse ErrorCodeRateLimitExceeded (ID req)
                          ''rate limit exceeded'' None), st1)
            else
              (let (reqWithResponder, made, heap') =
                     NewRequestWithResponder req darknodeID (allocator st1);
                   st2 = st1\<lparr>allocator := heap',
                             effects := effects st1 @ made @ [TaskSend (Msg reqWithResponder)]\<rparr>
               in if \<not> validator_ok env
                  then (let errMsg =
                              ''fail to send request to validator, too much back pressure in server''
                        in (Some (errResponse ErrorCodeInternal (ID req) errMsg None), st2))
                  else
                    (case selected env of
                       TimerFired \<Rightarrow>
                         (Some (errResponse ErrorCodeTimeout (ID req)
                            (''timeout for request='' @ Sprint_ID ext (ID req) @ '', method= ''
                               @ method)
                            None), st2)
                     | Received resp \<Rightarrow> (Some resp, st2)
                     | ContextDone \<Rightarrow>
                         (Some (errResponse ErrorCodeTimeout (ID req)
                            (''context canceled by the client for request=''
                               @ Sprint_ID ext (ID req)
                               @ '', method= '' @ method)
                            None), st2)
                     | Blocked \<Rightarrow> (None, st2)))))"

text \<open>
  \<open>phi.ParForAll(reqs, f)\<close> runs \<open>f(i)\<close> once for every index of \<open>reqs\<close>, in parallel.
  The tasks share the rate limiter only, whose \<open>Allow\<close> is atomic, and task \<open>i\<close>
  writes \<open>responses[i]\<close> only; \<open>sched\<close> is the order in which the tasks take effect.
  \<open>ParForAll\<close> returns when every task has returned: the flag is false when some task
  never does, and then \<open>ParForAll\<close> does not return either.
\<close>

fun ParForAll ::
  "(nat \<Rightarrow> 'rl state \<Rightarrow> response option \<times> 'rl state) \<Rightarrow> nat list \<Rightarrow>
   bool \<times> response list \<times> 'rl state \<Rightarrow> bool \<times> response list \<times> 'rl state" where
  "ParForAll f [] acc = acc"
| "ParForAll f (i # sched) (returned, responses, st) =
     (let (resp, st') = f i st in
      case resp of
        None \<Rightarrow> ParForAll f sched (False, responses, st')
      | Some v \<Rightarrow> ParForAll f sched (returned, responses[i := v], st'))"

text \<open>
  The slice \<open>responses\<close> after \<open>ParForAll\<close> has returned, \<open>None\<close> when it does not
  return, and the state after the tasks.
\<close>

definition run_batch ::
  "'rl externals \<Rightarrow> http_Request \<Rightarrow> string \<Rightarrow> request list \<Rightarrow> nat list \<Rightarrow>
   (nat \<Rightarrow> task_env) \<Rightarrow> 'rl state \<Rightarrow> response list option \<times> 'rl state" where
  "run_batch ext r darknodeID reqs sched envs st =
     (let responses = replicate (length reqs) zero_Response;
          (returned, responses', st') =
             ParForAll (\<lambda>i. task ext r darknodeID (reqs ! i) (envs i)) sched
               (True, responses, st)
      in (if returned then Some responses' else None, st'))"

text \<open>
  \<open>handleFunc\<close> from the check of the batch size on: what it writes to the
  \<open>http.ResponseWriter\<close>, \<open>None\<close> when it never gets to write.
\<close>

definition serve_batch ::
  "'rl externals \<Rightarrow> Options \<Rightarrow> http_Request \<Rightarrow> string \<Rightarrow> request list \<Rightarrow> nat list \<Rightarrow>
   (nat \<Rightarrow> task_env) \<Rightarrow> 'rl state \<Rightarrow> ResponseWriter option \<times> 'rl state" where
  "serve_batch ext opts r darknodeID reqs sched envs st =
     (let batchSize = int (length reqs) in
      if batchSize > MaxBatchSize opts
      then (let errMsg = ''maximum batch size exceeded: maximum is ''
                           @ fmt_int (MaxBatchSize opts) @ '' but got '' @ fmt_int batchSize
            in (Some (writeResponses
                        [errResponse ErrorCodeMaxBatchSizeExceeded (IdNum 0) errMsg None]), st))
      else (case run_batch ext r darknodeID reqs sched envs st of
              (None, st') \<Rightarrow> (None, st')
            | (Some responses, st') \<Rightarrow> (Some (writeResponses responses), st')))"

definition handleFunc ::
  "'rl externals \<Rightarrow> Options \<Rightarrow> nat list \<Rightarrow> (nat \<Rightarrow> task_env) \<Rightarrow> http_Request \<Rightarrow>
   'rl state \<Rightarrow> ResponseWriter option \<times> 'rl state" where
  "handleFunc ext opts sched envs r st =
     (let darknodeID = query_id r in
      case Decode ext (Body r) of
        None \<Rightarrow>
          (Some (writeResponses [errResponse ErrorCodeInvalidJSON (IdNum 0)
                                   ''lightnode could not decode JSON request'' None]), st)
      | Some rawMessage \<Rightarrow>
          (case Unmarshal_requests ext rawMessage of
             Some reqs \<Rightarrow> serve_batch ext opts r darknodeID reqs sched envs st
           | None \<Rightarrow>
               (case Unmarshal_request ext rawMessage of
                  None \<Rightarrow>
                    (Some (writeResponses [errResponse ErrorCodeInvalidJSON (IdNum 0)
                                             ''lightnode could not parse JSON request'' None]),
                     st)
                | Some req \<Rightarrow> serve_batch ext opts r darknodeID [req] sched envs st)))"

section \<open>One envelope through the pipeline\<close>

text \<open>
  The number of sends on a channel in a list of effects, and the value a receiver on the
  channel gets: the first one sent.
\<close>

fun is_send_on :: "chan \<Rightarrow> effect \<Rightarrow> bool" where
  "is_send_on c (ChanSend c' resp) = (c' = c)"
| "is_send_on c e = False"

definition sends_on :: "chan \<Rightarrow> effect list \<Rightarrow> nat" where
  "sends_on c effs = length (filter (is_send_on c) effs)"

fun received :: "chan \<Rightarrow> effect list \<Rightarrow> response option" where
  "received c [] = None"
| "received c (ChanSend c' resp # effs) = (if c' = c then Some resp else received c effs)"
| "received c (e # effs) = received c effs"

text \<open>
  What an effect of the cacher's \<open>Handle\<close> leads to. A message sent to the dispatcher is
  handled by \<open>Dispatcher.Handle\<close> when the mailbox took it (\<open>accepted\<close>); a panic ends
  the handler with nothing sent. A goroutine runs on when a response was sent on the
  channel it waits on, at the time \<open>later\<close>.
\<close>

fun dispatcher_stage ::
  "(nat \<Rightarrow> MultiAddress \<Rightarrow> request \<Rightarrow> response option) \<Rightarrow> nat list \<Rightarrow> bool \<Rightarrow> Dispatcher \<Rightarrow>
   effect \<Rightarrow> effect list" where
  "dispatcher_stage send arrival accepted dispatcher (TaskSend m) =
     (if accepted
      then (case dispatcher_Handle send arrival dispatcher m of
              Inl e \<Rightarrow> []
            | Inr effs \<Rightarrow> effs)
      else [])"
| "dispatcher_stage send arrival accepted dispatcher e = []"

fun goroutine_stage :: "nat \<Rightarrow> Cacher \<Rightarrow> effect list \<Rightarrow> effect \<Rightarrow> effect list" where
  "goroutine_stage later cacher sent (Go g) =
     (case received (awaits g) sent of
        None \<Rightarrow> []
      | Some resp \<Rightarrow>
          (case cacher_goroutine later cacher g resp of
             Inl e \<Rightarrow> []
           | Inr (effs, cacher') \<Rightarrow> effs))"
| "goroutine_stage later cacher sent e = []"

text \<open>
  The effects of one request from the moment the ingress wraps it: the envelope is made,
  reaches the cacher (the validator hands on the envelope it was given), and from there
  the dispatcher and the cacher's goroutine.
\<close>

definition pipeline ::
  "(bytes \<Rightarrow> ID) \<Rightarrow> (nat \<Rightarrow> MultiAddress \<Rightarrow> request \<Rightarrow> response option) \<Rightarrow> nat list \<Rightarrow> bool \<Rightarrow>
   nat \<Rightarrow> nat \<Rightarrow> Cacher \<Rightarrow> Dispatcher \<Rightarrow> request \<Rightarrow> string \<Rightarrow> nat \<Rightarrow> effect list" where
  "pipeline sum256 send arrival accepted now later cacher dispatcher req darknodeAddr h =
     (let (msg, made, h1) = NewRequestWithResponder req darknodeAddr h in
      case cacher_Handle sum256 now cacher h1 (Msg msg) of
        Inl e \<Rightarrow> made
      | Inr (effs, h2) \<Rightarrow>
          (let d_effs = concat (map (dispatcher_stage send arrival accepted dispatcher) effs);
               g_effs = concat (map (goroutine_stage later cacher d_effs) effs)
           in made @ effs @ d_effs @ g_effs))"

section \<open>What the handler writes, field by field\<close>

text \<open>
  What slot \<open>i\<close> of the responses holds for the request \<open>req\<close> of that index, in terms
  of the fields of the response: an error response with the ID of \<open>req\<close> and one of
  the handler's codes and messages, or the response received on the reply channel.
\<close>

definition slot_holds :: "'rl externals \<Rightarrow> request \<Rightarrow> task_env \<Rightarrow> response \<Rightarrow> bool" where
  "slot_holds ext req env resp =
     (let built = (\<lambda>code message.
            \<lparr>rVersion = ''2.0'', rID = ID req, Result = None,
             Error = Some \<lparr>Code = code, Message = message, Data = None\<rparr>\<rparr>)
      in if Method req \<notin> set RPCs then resp = built (- 32601) ''unsupported method''
         else resp = built (- 32002) ''rate limit exceeded''
           \<or> (if \<not> validator_ok env
               then resp = built (- 32603)
                      ''fail to send request to validator, too much back pressure in server''
               else (case selected env of
                       TimerFired \<Rightarrow>
                         resp = built (- 32004)
                           (''timeout for request='' @ Sprint_ID ext (ID req)
                              @ '', method= '' @ Method req)
                     | Received got \<Rightarrow> resp = got
                     | ContextDone \<Rightarrow>
                         resp = built (- 32004)
                           (''context canceled by the client for request=''
                              @ Sprint_ID ext (ID req) @ '', method= '' @ Method req)
                     | Blocked \<Rightarrow> False)))"

text \<open>
  What is written for a list of responses: the array with status 200 unless the list has
  one element; for one element that element as a single object, with status 200 when it
  has no error, and otherwise its error under its ID with the status of the error code.
\<close>

definition written :: "response list \<Rightarrow> ResponseWriter \<Rightarrow> bool" where
  "written responses w =
     (if length responses \<noteq> 1
      then w = \<lparr>content_type = ''application/json'', status = 200, body = Array responses\<rparr>
      else content_type w = ''application/json''
        \<and> (case Error (responses ! 0) of
              None \<Rightarrow> status w = 200 \<and> body w = Single (responses ! 0)
            | Some err \<Rightarrow>
                body w = Single \<lparr>rVersion = ''2.0'', rID = rID (responses ! 0), Result = None,
                                 Error = Some err\<rparr>
                \<and> status w =
                    (if Code err = - 32700 \<or> Code err = - 32602 \<or> Code err = - 32600 then 400
                     else if Code err = - 32601 \<or> Code err = - 32604 then 404
                     else 500)))"

section \<open>Concrete inputs\<close>

text \<open>Envelopes, responses and caches on which the properties below are run.\<close>

definition ex_query :: RequestWithResponder where
  "ex_query = \<lparr>Request = \<lparr>Version = ''2.0'', ID = IdFloat 0x4000000000000000,
                  Method = ''ren_queryBlock'',
                  Params = Some ''{}''\<rparr>, Responder = 0, DarknodeID = ''X''\<rparr>"

definition ex_submit :: RequestWithResponder where
  "ex_submit = \<lparr>Request = \<lparr>Version = ''2.0'', ID = IdFloat 0x4008000000000000,
                  Method = ''ren_submitTx'',
                  Params = Some ''{}''\<rparr>, Responder = 0, DarknodeID = ''X''\<rparr>"

definition ex_unknown :: RequestWithResponder where
  "ex_unknown = \<lparr>Request = \<lparr>Version = ''2.0'', ID = IdFloat 0x401C000000000000,
                  Method = ''method'',
                  Params = Some ''{}''\<rparr>, Responder = 0, DarknodeID = []\<rparr>"

definition ex_response :: response where
  "ex_response = NewResponse (IdFloat 0x3FF0000000000000) (Some ''{}'') None"

definition ex_cacher :: Cacher where
  "ex_cacher =
     \<lparr>ttlCache = \<lparr>entries = [ID_String (pad32 ''{}ren_queryBlock'') @ ''X'' \<mapsto> (ex_response, 60)],
                  lifetime = 60\<rparr>\<rparr>"

definition ex_reply :: response where
  "ex_reply = NewResponse (IdFloat 0x4000000000000000) (Some ''{}'') None"

definition ex_send :: "nat \<Rightarrow> MultiAddress \<Rightarrow> request \<Rightarrow> response option" where
  "ex_send t a req = (if a = ''down'' then None else Some (NewResponse (ID req) (Some a) None))"

definition ex_dispatcher :: Dispatcher where
  "ex_dispatcher = \<lparr>addrs = [''/ip4/10.0.0.7'', ''down''], timeout = 1000000000\<rparr>"

text \<open>
  Stand-ins for the parameters of the server: a limiter with one counter of tokens, and
  decoders that know three bodies (a batch of two requests, one request, and a JSON
  number, which is neither) and take every other body as one that does not decode. The
  IDs 7 and 2 are decoded to the \<open>float64\<close> values 7 and 2.
\<close>

definition ex_body_batch :: bytes where
  "ex_body_batch =
     ''[{\"jsonrpc\":\"2.0\",\"id\":7,\"method\":\"method\",\"params\":{}},''
     @ ''{\"jsonrpc\":\"2.0\",\"id\":2,\"method\":\"ren_queryBlock\",\"params\":{}}]''"

definition ex_body_single :: bytes where
  "ex_body_single =
     ''{\"jsonrpc\":\"2.0\",\"id\":2,\"method\":\"ren_queryBlock\",\"params\":{}}''"

definition ex_Allow :: "nat \<Rightarrow> string \<Rightarrow> string \<Rightarrow> bool \<times> nat" where
  "ex_Allow tokens method host = (0 < tokens, tokens - 1)"

definition ex_SplitHostPort :: "string \<Rightarrow> (string \<times> string) option" where
  "ex_SplitHostPort a = (if a = ''10.0.0.1:80'' then Some (''10.0.0.1'', ''80'') else None)"

definition ex_Decode :: "bytes \<Rightarrow> bytes option" where
  "ex_Decode b =
     (if b = ex_body_batch \<or> b = ex_body_single \<or> b = ''123'' then Some b else None)"

definition ex_Unmarshal_requests :: "bytes \<Rightarrow> request list option" where
  "ex_Unmarshal_requests raw =
     (if raw = ex_body_batch then Some [Request ex_unknown, Request ex_query] else None)"

definition ex_Unmarshal_request :: "bytes \<Rightarrow> request option" where
  "ex_Unmarshal_request raw =
     (if raw = ex_body_single then Some (Request ex_query) else None)"

definition ex_Sprint_ID :: "json_id \<Rightarrow> string" where
  "ex_Sprint_ID i =
     (if i = IdFloat 0x4000000000000000 then ''2''
      else if i = IdFloat 0x401C000000000000 then ''7''
      else if i = IdNull then ''<nil>''
      else (case i of IdStr s \<Rightarrow> s | IdNum n \<Rightarrow> fmt_int n | _ \<Rightarrow> ''?''))"

definition ex_ext :: "nat externals" where
  "ex_ext = \<lparr>Allow = ex_Allow, SplitHostPort = ex_SplitHostPort, Decode = ex_Decode,
             Unmarshal_requests = ex_Unmarshal_requests,
             Unmarshal_request = ex_Unmarshal_request, Sprint_ID = ex_Sprint_ID\<rparr>"

definition ex_http :: "bytes \<Rightarrow> http_Request" where
  "ex_http b = \<lparr>Body = b, RemoteAddr = ''10.0.0.1:80'', query_id = ''X''\<rparr>"

definition ex_envs :: "nat \<Rightarrow> task_env" where
  "ex_envs i = \<lparr>validator_ok = True, selected = Received ex_reply\<rparr>"

definition ex_state :: "nat state" where
  "ex_state = \<lparr>rateLimiter = 1, allocator = 0, effects = []\<rparr>"

definition ex_opts :: Options where
  "ex_opts = \<lparr>Port = ''5000'', MaxBatchSize = 10, Timeout = 15000000000\<rparr>"

text \<open>
  A request like \<open>ex_query\<close> with the ID 1, the error response of a back-end to it, the
  cache after that response was inserted, and tasks that receive that response.
\<close>

definition ex_first :: RequestWithResponder where
  "ex_first = \<lparr>Request = \<lparr>Version = ''2.0'', ID = IdFloat 0x3FF0000000000000,
                  Method = ''ren_queryBlock'', Params = Some ''{}''\<rparr>,
                Responder = 0, DarknodeID = ''X''\<rparr>"




section \<open>Properties of the cacher\<close>

lemmas Method_defs =
  MethodQueryBlock_def MethodQueryBlocks_def MethodQueryNumPeers_def MethodQueryPeers_def
  MethodQueryEpoch_def MethodQueryStat_def MethodSubmitTx_def MethodQueryTx_def

lemmas ErrorCode_defs =
  ErrorCodeInvalidJSON_def ErrorCodeInvalidRequest_def ErrorCodeMethodNotFound_def
  ErrorCodeInvalidParams_def ErrorCodeInternal_def ErrorCodeResultNotFound_def
  ErrorCodeMaxBatchSizeExceeded_def ErrorCodeRateLimitExceeded_def
  ErrorCodeForwardingError_def ErrorCodeTimeout_def

text \<open>
  C3, as the claim states it, fails. A \<open>ren_submitTx\<close> envelope handled by a cacher
  whose cache is empty is forwarded to the dispatcher, and when the dispatcher's response
  arrives the goroutine inserts it: the cache has one entry afterwards, where it had none.
\<close>

theorem uncached_methods_counterexample:
  "cacher_Handle pad32 0 (New_Cacher 60) 1 (Msg ex_submit) =
     Inr ([MakeChan 1 1, TaskSend (Msg (ex_submit\<lparr>Responder := 1\<rparr>)),
           Go \<lparr>awaits = 1, g_reqID = pad32 ''{}ren_submitTx'', g_msg = ex_submit\<rparr>], 2)
   \<and> cacher_goroutine 0 (New_Cacher 60)
        \<lparr>awaits = 1, g_reqID = pad32 ''{}ren_submitTx'', g_msg = ex_submit\<rparr> ex_response =
     Inr ([ChanSend 0 ex_response],
          \<lparr>ttlCache = \<lparr>entries = [ID_String (pad32 ''{}ren_submitTx'') @ ''X'' \<mapsto> (ex_response, 60)],
                       lifetime = 60\<rparr>\<rparr>)
   \<and> dom [ID_String (pad32 ''{}ren_submitTx'') @ ''X'' \<mapsto> (ex_response, 60 :: nat)]
       \<noteq> dom (entries (ttlCache (New_Cacher 60)))"
  by (simp add: cacher_Handle_def request_ID_def hash_def isCachable_def cacher_get_def
      kv_Get_def Method_defs New_Cacher_def NewTTLCache_def ex_submit_def MarshalJSON_def
      make_chan_def cacher_goroutine_def cacher_insert_def kv_Insert_def)

text \<open>
  C3, amended. For an envelope whose method is \<open>ren_submitTx\<close> or \<open>ren_queryTx\<close> the
  cacher never serves the reply from the cache: whatever the cache holds, \<open>Handle\<close>
  forwards the request to the dispatcher with a fresh reply channel of capacity 1 and
  starts the goroutine that waits on it, and writes nothing to the envelope's reply
  channel itself. When the dispatcher's response arrives, the goroutine inserts it into
  the cache under the envelope's key, as it does for every method, and then writes it to
  the envelope's reply channel.
\<close>

theorem uncached_methods_forwarded:
  assumes "Method (Request msg) = ''ren_submitTx'' \<or> Method (Request msg) = ''ren_queryTx''"
  shows "cacher_Handle sum256 now cacher h (Msg msg) =
           Inr ([MakeChan h 1,
                 TaskSend (Msg \<lparr>Request = Request msg, Responder = h,
                               DarknodeID = DarknodeID msg\<rparr>),
                 Go \<lparr>awaits = h, g_reqID = request_ID sum256 (Request msg), g_msg = msg\<rparr>],
                Suc h)
    \<and> cacher_goroutine later cacher
           \<lparr>awaits = h, g_reqID = request_ID sum256 (Request msg), g_msg = msg\<rparr> resp =
           Inr ([ChanSend (Responder msg) resp],
                cacher\<lparr>ttlCache := (ttlCache cacher)\<lparr>entries := (entries (ttlCache cacher))
                  (ID_String (request_ID sum256 (Request msg)) @ DarknodeID msg
                     \<mapsto> (resp, later + lifetime (ttlCache cacher)))\<rparr>\<rparr>)"
  using assms
  by (auto simp: cacher_Handle_def isCachable_def Method_defs make_chan_def Let_def
      cacher_goroutine_def cacher_insert_def kv_Insert_def split: prod.splits)

theorem uncached_methods_forwarded_witness:
  "cacher_Handle pad32 0 (New_Cacher 60) 1 (Msg ex_submit) =
     Inr ([MakeChan 1 1, TaskSend (Msg (ex_submit\<lparr>Responder := 1\<rparr>)),
           Go \<lparr>awaits = 1, g_reqID = pad32 ''{}ren_submitTx'', g_msg = ex_submit\<rparr>], 2)"
  using uncached_methods_forwarded [of ex_submit pad32 0 "New_Cacher 60" 1 0 ex_response]
  by (simp add: ex_submit_def request_ID_def hash_def MarshalJSON_def)

text \<open>
  C4. When the method of an envelope is one of the six cacheable methods and the cache
  holds, under the key made of the fingerprint and the target hint, an entry that has
  not expired, \<open>Handle\<close> writes the cached response to the envelope's reply channel and
  does nothing else: nothing is sent to the dispatcher, no channel is made and no
  goroutine is started.
\<close>

theorem cached_reply_from_cache:
  assumes "Method (Request msg) \<in> {''ren_queryBlock'', ''ren_queryBlocks'', ''ren_queryNumPeers'',
             ''ren_queryPeers'', ''ren_queryEpoch'', ''ren_queryStat''}"
    and "entries (ttlCache cacher)
           (ID_String (sum256 (MarshalJSON (Params (Request msg)) @ Method (Request msg)))
              @ DarknodeID msg) = Some (r, expires_at)"
    and "now < expires_at"
  shows "cacher_Handle sum256 now cacher h (Msg msg) = Inr ([ChanSend (Responder msg) r], h)"
  using assms
  by (auto simp: cacher_Handle_def request_ID_def hash_def isCachable_def cacher_get_def
      kv_Get_def Let_def Method_defs)

theorem cached_reply_from_cache_witness:
  "cacher_Handle pad32 5 ex_cacher 1 (Msg ex_query) = Inr ([ChanSend 0 ex_response], 1)"
  using cached_reply_from_cache [of ex_query ex_cacher pad32 ex_response 60 5 1]
  by (simp add: ex_query_def ex_cacher_def MarshalJSON_def)

lemma ID_String_bytes: "ID_String i = Rep_ID i"
  by transfer simp

lemma length_Rep_ID: "length (Rep_ID i) = 32"
  using Rep_ID [of i] by simp

text \<open>
  C8. The key under which \<open>insert\<close> writes and \<open>get\<close> reads is the 32 bytes of the hash
  of the params bytes (\<open>null\<close> for nil params) followed by the method name, followed by
  the target hint: its first 32 bytes are the hash and the rest is the hint. For two
  envelopes with the same params, method and hint the fingerprints are equal, \<open>insert\<close>
  for the one changes the table at that key only, and \<open>get\<close> for the other reads the
  table at that key. Keys are equal exactly when the hashes and the hints are.
\<close>

theorem cache_key_deterministic:
  assumes "Params (Request m1) = Params (Request m2)"
    and "Method (Request m1) = Method (Request m2)"
    and "DarknodeID m1 = DarknodeID m2"
  shows "(let fingerprint = Rep_ID (sum256 ((case Params (Request m1) of
                                               None \<Rightarrow> ''null'' | Some bs \<Rightarrow> bs)
                                            @ Method (Request m1)));
              key = fingerprint @ DarknodeID m1
          in request_ID sum256 (Request m1) = request_ID sum256 (Request m2)
           \<and> ID_String (request_ID sum256 (Request m2)) = fingerprint
           \<and> length fingerprint = 32 \<and> take 32 key = fingerprint
           \<and> drop 32 key = DarknodeID m1
           \<and> cacher_insert t cacher (request_ID sum256 (Request m1)) (DarknodeID m1) resp meth =
               Inr (cacher\<lparr>ttlCache := (ttlCache cacher)\<lparr>entries :=
                      (entries (ttlCache cacher))
                        (key \<mapsto> (resp, t + lifetime (ttlCache cacher)))\<rparr>\<rparr>)
           \<and> cacher_get now cacher (request_ID sum256 (Request m2)) (DarknodeID m2) =
               (case entries (ttlCache cacher) key of
                  None \<Rightarrow> (zero_Response, False)
                | Some (r, expires_at) \<Rightarrow>
                    if now < expires_at then (r, True) else (zero_Response, False)))
     \<and> (ID_String (request_ID sum256 (Request m1)) @ DarknodeID m1 =
          ID_String (request_ID sum256 (Request m3)) @ DarknodeID m3
        \<longleftrightarrow> request_ID sum256 (Request m1) = request_ID sum256 (Request m3)
            \<and> DarknodeID m1 = DarknodeID m3)"
proof -
  let ?data = "(case Params (Request m1) of None \<Rightarrow> ''null'' | Some bs \<Rightarrow> bs)
                 @ Method (Request m1)"
  let ?fp = "Rep_ID (sum256 ?data)"
  let ?key = "?fp @ DarknodeID m1"
  have id1: "request_ID sum256 (Request m1) = sum256 ?data"
    by (simp add: request_ID_def hash_def MarshalJSON_def)
  have id2: "request_ID sum256 (Request m2) = sum256 ?data"
    using assms by (simp add: request_ID_def hash_def MarshalJSON_def)
  have same: "request_ID sum256 (Request m1) = request_ID sum256 (Request m2)"
    by (simp add: id1 id2)
  have str: "ID_String (request_ID sum256 (Request m2)) = ?fp"
    by (simp add: id2 ID_String_bytes)
  have len: "length ?fp = 32" by (rule length_Rep_ID)
  have tk: "take 32 ?key = ?fp" using len by simp
  have dr: "drop 32 ?key = DarknodeID m1" using len by simp
  have ins: "cacher_insert t cacher (request_ID sum256 (Request m1)) (DarknodeID m1) resp meth =
               Inr (cacher\<lparr>ttlCache := (ttlCache cacher)\<lparr>entries :=
                      (entries (ttlCache cacher))
                        (?key \<mapsto> (resp, t + lifetime (ttlCache cacher)))\<rparr>\<rparr>)"
    by (simp add: id1 ID_String_bytes cacher_insert_def kv_Insert_def)
  have get: "cacher_get now cacher (request_ID sum256 (Request m2)) (DarknodeID m2) =
               (case entries (ttlCache cacher) ?key of
                  None \<Rightarrow> (zero_Response, False)
                | Some (r, expires_at) \<Rightarrow>
                    if now < expires_at then (r, True) else (zero_Response, False))"
    using assms(3)
    by (simp add: id2 ID_String_bytes cacher_get_def kv_Get_def split: option.splits)
  have inj: "ID_String (request_ID sum256 (Request m1)) @ DarknodeID m1 =
          ID_String (request_ID sum256 (Request m3)) @ DarknodeID m3
        \<longleftrightarrow> request_ID sum256 (Request m1) = request_ID sum256 (Request m3)
            \<and> DarknodeID m1 = DarknodeID m3"
    by (simp add: ID_String_bytes length_Rep_ID Rep_ID_inject)
  show ?thesis
    unfolding Let_def using same str len tk dr ins get inj by (intro conjI)
qed

lemma Rep_ID_pad32: "Rep_ID (pad32 bs) = take 32 (bs @ replicate 32 (CHR 0x00))"
  by (rule pad32.rep_eq)

theorem cache_key_deterministic_witness:
  "cacher_insert 0 (New_Cacher 60) (request_ID pad32 (Request ex_first)) ''X'' ex_response
      ''ren_queryBlock'' =
     Inr \<lparr>ttlCache = \<lparr>entries = [Rep_ID (pad32 ''{}ren_queryBlock'') @ ''X''
                                    \<mapsto> (ex_response, 60)],
                      lifetime = 60\<rparr>\<rparr>
   \<and> cacher_get 5 \<lparr>ttlCache = \<lparr>entries = [Rep_ID (pad32 ''{}ren_queryBlock'') @ ''X''
                                               \<mapsto> (ex_response, 60)],
                                 lifetime = 60\<rparr>\<rparr>
        (request_ID pad32 (Request ex_query)) ''X'' = (ex_response, True)
   \<and> Rep_ID (pad32 ''{}ren_queryBlock'') = ''{}ren_queryBlock'' @ replicate 16 (CHR 0x00)"
proof -
  have 1: "Params (Request ex_first) = Params (Request ex_query)"
    by (simp add: ex_first_def ex_query_def)
  have 2: "Method (Request ex_first) = Method (Request ex_query)"
    by (simp add: ex_first_def ex_query_def)
  have 3: "DarknodeID ex_first = DarknodeID ex_query"
    by (simp add: ex_first_def ex_query_def)
  have bytes: "Rep_ID (pad32 ''{}ren_queryBlock'') = ''{}ren_queryBlock'' @ replicate 16 (CHR 0x00)"
    unfolding Rep_ID_pad32 by code_simp
  have ins: "cacher_insert 0 (New_Cacher 60) (request_ID pad32 (Request ex_first)) ''X''
               ex_response ''ren_queryBlock'' =
     Inr \<lparr>ttlCache = \<lparr>entries = [Rep_ID (pad32 ''{}ren_queryBlock'') @ ''X''
                                    \<mapsto> (ex_response, 60)],
                      lifetime = 60\<rparr>\<rparr>"
    using cache_key_deterministic [OF 1 2 3, where ?sum256.0 = pad32 and t = 0
        and cacher = "New_Cacher 60" and resp = ex_response and meth = "''ren_queryBlock''"
        and now = 0 and ?m3.0 = ex_query, unfolded Let_def, THEN conjunct1, THEN conjunct2,
        THEN conjunct2, THEN conjunct2, THEN conjunct2, THEN conjunct2, THEN conjunct1]
    by (simp add: ex_first_def New_Cacher_def NewTTLCache_def)
  have get: "cacher_get 5 \<lparr>ttlCache = \<lparr>entries = [Rep_ID (pad32 ''{}ren_queryBlock'') @ ''X''
                                               \<mapsto> (ex_response, 60)],
                                 lifetime = 60\<rparr>\<rparr>
        (request_ID pad32 (Request ex_query)) ''X'' = (ex_response, True)"
    using cache_key_deterministic [OF 1 2 3, where ?sum256.0 = pad32 and now = 5
        and cacher = "\<lparr>ttlCache = \<lparr>entries = [Rep_ID (pad32 ''{}ren_queryBlock'') @ ''X''
                                               \<mapsto> (ex_response, 60)], lifetime = 60\<rparr>\<rparr>"
        and t = 0 and resp = ex_response and meth = "''ren_queryBlock''" and ?m3.0 = ex_query,
        unfolded Let_def, THEN conjunct1, THEN conjunct2, THEN conjunct2, THEN conjunct2,
        THEN conjunct2, THEN conjunct2, THEN conjunct2]
    by (simp add: ex_first_def ex_query_def)
  show ?thesis using ins get bytes by (intro conjI)
qed

text \<open>
  C10. \<open>isCachable\<close> returns a value exactly on the eight known methods and panics on
  every other method name, and \<open>Handle\<close> panics with that panic exactly on the
  envelopes whose method is not one of the eight. When the method is in the table of
  known methods, which is what the validator has checked, \<open>Handle\<close> does not panic.
\<close>

theorem isCachable_total_on_known_methods:
  "isl (isCachable m) =
     (m \<notin> {''ren_queryBlock'', ''ren_queryBlocks'', ''ren_queryNumPeers'', ''ren_queryPeers'',
            ''ren_queryEpoch'', ''ren_queryStat'', ''ren_submitTx'', ''ren_queryTx''})
   \<and> (cacher_Handle sum256 now cacher h (Msg msg) = Inl (UnsupportedMethod (Method (Request msg))))
      = (Method (Request msg) \<notin>
          {''ren_queryBlock'', ''ren_queryBlocks'', ''ren_queryNumPeers'', ''ren_queryPeers'',
           ''ren_queryEpoch'', ''ren_queryStat'', ''ren_submitTx'', ''ren_queryTx''})
   \<and> (Method (Request msg) \<in> set RPCs
        \<longrightarrow> \<not> isl (cacher_Handle sum256 now cacher h (Msg msg)))"
  by (auto simp: isCachable_def Method_defs cacher_Handle_def Let_def RPCs_def make_chan_def
      split: prod.splits)

theorem isCachable_total_on_known_methods_witness:
  "cacher_Handle pad32 0 (New_Cacher 60) 1 (Msg ex_unknown) = Inl (UnsupportedMethod ''method'')
   \<and> ''ren_queryBlock'' \<in> set RPCs
   \<and> \<not> isl (cacher_Handle pad32 0 (New_Cacher 60) 1 (Msg ex_query))"
  using isCachable_total_on_known_methods [of "''method''" pad32 0 "New_Cacher 60" 1 ex_unknown]
    isCachable_total_on_known_methods [of "''method''" pad32 0 "New_Cacher 60" 1 ex_query]
  by (simp add: ex_unknown_def ex_query_def RPCs_def Method_defs)

section \<open>Properties of the HTTP server\<close>

lemma ParForAll_length: "length (fst (snd (ParForAll f sched (b, rs, st)))) = length rs"
  by (induction sched arbitrary: b rs st) (auto split: prod.splits option.splits)

lemma ParForAll_untouched:
  "i \<notin> set sched \<Longrightarrow> fst (snd (ParForAll f sched (b, rs, st))) ! i = rs ! i"
  by (induction sched arbitrary: b rs st) (auto split: prod.splits option.splits)

lemma ParForAll_not_returned: "\<not> fst (ParForAll f sched (False, rs, st))"
  by (induction sched arbitrary: rs st) (auto split: prod.splits option.splits)

lemma ParForAll_returned:
  "(\<And>i s. i \<in> set sched \<Longrightarrow> fst (f i s) \<noteq> None) \<Longrightarrow>
   fst (ParForAll f sched (b, rs, st)) = b"
proof (induction sched arbitrary: b rs st)
  case Nil
  then show ?case by simp
next
  case (Cons j sched)
  obtain resp st1 where step: "f j st = (resp, st1)" by (cases "f j st")
  then obtain v where v: "resp = Some v"
    using Cons.prems [of j st] by (cases resp) auto
  have "fst (ParForAll f sched (b, rs[j := v], st1)) = b"
    using Cons.IH Cons.prems by simp
  then show ?case using step v by simp
qed

lemma ParForAll_slot:
  "distinct sched \<Longrightarrow> i \<in> set sched \<Longrightarrow> i < length rs \<Longrightarrow>
   \<exists>st'. (case fst (f i st') of
            None \<Rightarrow> \<not> fst (ParForAll f sched (b, rs, st))
          | Some v \<Rightarrow> fst (snd (ParForAll f sched (b, rs, st))) ! i = v)"
proof (induction sched arbitrary: b rs st)
  case Nil
  then show ?case by simp
next
  case (Cons j sched)
  obtain resp st1 where step: "f j st = (resp, st1)" by (cases "f j st")
  have dist: "distinct sched" using Cons.prems(1) by simp
  show ?case
  proof (cases resp)
    case None
    have eq: "ParForAll f (j # sched) (b, rs, st) = ParForAll f sched (False, rs, st1)"
      using step None by simp
    show ?thesis
    proof (cases "i = j")
      case True
      have "fst (f i st) = None" using True step None by simp
      moreover have "\<not> fst (ParForAll f (j # sched) (b, rs, st))"
        unfolding eq by (rule ParForAll_not_returned)
      ultimately have "case fst (f i st) of
                   None \<Rightarrow> \<not> fst (ParForAll f (j # sched) (b, rs, st))
                 | Some v \<Rightarrow> fst (snd (ParForAll f (j # sched) (b, rs, st))) ! i = v"
        by simp
      then show ?thesis by blast
    next
      case False
      then have mem: "i \<in> set sched" using Cons.prems(2) by simp
      show ?thesis
        unfolding eq by (rule Cons.IH [OF dist mem Cons.prems(3)])
    qed
  next
    case (Some v)
    have eq: "ParForAll f (j # sched) (b, rs, st) = ParForAll f sched (b, rs[j := v], st1)"
      using step Some by simp
    show ?thesis
    proof (cases "i = j")
      case True
      then have notin: "i \<notin> set sched" using Cons.prems(1) by simp
      have "fst (snd (ParForAll f sched (b, rs[j := v], st1))) ! i = (rs[j := v]) ! i"
        using notin by (rule ParForAll_untouched)
      then have "fst (snd (ParForAll f (j # sched) (b, rs, st))) ! i = v"
        unfolding eq using True Cons.prems(3) by simp
      moreover have "fst (f i st) = Some v" using True step Some by simp
      ultimately have "case fst (f i st) of
                   None \<Rightarrow> \<not> fst (ParForAll f (j # sched) (b, rs, st))
                 | Some v \<Rightarrow> fst (snd (ParForAll f (j # sched) (b, rs, st))) ! i = v"
        by simp
      then show ?thesis by blast
    next
      case False
      then have mem: "i \<in> set sched" using Cons.prems(2) by simp
      have len: "i < length (rs[j := v])" using Cons.prems(3) by simp
      show ?thesis
        unfolding eq by (rule Cons.IH [OF dist mem len])
    qed
  qed
qed

lemma task_slot:
  "(case fst (task ext r d req env st) of
      None \<Rightarrow> Method req \<in> set RPCs \<and> validator_ok env \<and> selected env = Blocked
    | Some resp \<Rightarrow> slot_holds ext req env resp)"
  by (cases "selected env")
     (auto simp: task_def slot_holds_def Let_def NewRequestWithResponder_def make_chan_def
        errResponse_def NewResponse_def NewError_def ErrorCode_defs
        split: prod.splits option.splits)

lemma writeResponses_written: "written responses (writeResponses responses)"
  by (auto simp: written_def writeResponses_def writeError_def NewResponse_def ErrorCode_defs
      split: option.splits)

lemma ParForAll_blocked:
  assumes "\<not> fst (ParForAll f sched (True, rs, st))"
  shows "\<exists>i\<in>set sched. \<exists>s. fst (f i s) = None"
proof (rule ccontr)
  assume neg: "\<not> (\<exists>i\<in>set sched. \<exists>s. fst (f i s) = None)"
  have "fst (ParForAll f sched (True, rs, st)) = True"
  proof (rule ParForAll_returned)
    fix i s assume "i \<in> set sched"
    then show "fst (f i s) \<noteq> None" using neg by auto
  qed
  then show False using assms by simp
qed

lemma serve_batch_slots:
  assumes "int (length reqs) \<le> MaxBatchSize opts"
    and "distinct sched" and "set sched = {..<length reqs}"
  shows "(case fst (serve_batch ext opts r d reqs sched envs st) of
            None \<Rightarrow>
              (\<exists>i<length reqs. Method (reqs ! i) \<in> set RPCs \<and> validator_ok (envs i)
                  \<and> selected (envs i) = Blocked)
          | Some w \<Rightarrow>
              (\<exists>responses. length responses = length reqs \<and> written responses w
                  \<and> (\<forall>i<length reqs. slot_holds ext (reqs ! i) (envs i) (responses ! i))))
       \<and> ((\<forall>i<length reqs. selected (envs i) \<noteq> Blocked) \<longrightarrow>
             fst (serve_batch ext opts r d reqs sched envs st) \<noteq> None)"
proof -
  let ?f = "\<lambda>i. task ext r d (reqs ! i) (envs i)"
  let ?init = "replicate (length reqs) zero_Response"
  let ?P = "ParForAll ?f sched (True, ?init, st)"
  obtain b responses st' where P: "?P = (b, responses, st')" by (cases ?P) auto
  have serve: "fst (serve_batch ext opts r d reqs sched envs st) =
                 (if b then Some (writeResponses responses) else None)"
    using assms(1) P by (simp add: serve_batch_def run_batch_def Let_def)
  have len: "length responses = length reqs"
    using ParForAll_length [of ?f sched True ?init st] P by simp
  have blocked: "\<not> b \<Longrightarrow> \<exists>i<length reqs. Method (reqs ! i) \<in> set RPCs
                    \<and> validator_ok (envs i) \<and> selected (envs i) = Blocked"
  proof -
    assume "\<not> b"
    then have "\<not> fst ?P" using P by simp
    then obtain i s where i: "i \<in> set sched" and none: "fst (?f i s) = None"
      using ParForAll_blocked [of ?f sched ?init st] by blast
    have "Method (reqs ! i) \<in> set RPCs \<and> validator_ok (envs i) \<and> selected (envs i) = Blocked"
      using none task_slot [where ext = ext and r = r and d = d and req = "reqs ! i"
          and env = "envs i" and st = s] by simp
    moreover have "i < length reqs" using i assms(3) by simp
    ultimately show ?thesis by blast
  qed
  have slots: "b \<Longrightarrow> \<forall>i<length reqs. slot_holds ext (reqs ! i) (envs i) (responses ! i)"
  proof (intro allI impI)
    fix i assume b: b and i: "i < length reqs"
    then have mem: "i \<in> set sched" using assms(3) by simp
    obtain s where
      s: "case fst (?f i s) of None \<Rightarrow> \<not> fst ?P | Some v \<Rightarrow> fst (snd ?P) ! i = v"
      using ParForAll_slot [OF assms(2) mem, of ?init ?f True st] i by auto
    have "fst (?f i s) \<noteq> None" using s b P by (cases "fst (?f i s)") auto
    then obtain v where v: "fst (?f i s) = Some v" by auto
    then have "responses ! i = v" using s P by simp
    then show "slot_holds ext (reqs ! i) (envs i) (responses ! i)"
      using v task_slot [where ext = ext and r = r and d = d and req = "reqs ! i"
          and env = "envs i" and st = s] by simp
  qed
  have returns: "(\<forall>i<length reqs. selected (envs i) \<noteq> Blocked) \<longrightarrow> b"
    using blocked by blast
  show ?thesis
  proof (cases b)
    case True
    then show ?thesis
      using serve len slots writeResponses_written [of responses] by auto
  next
    case False
    then show ?thesis using serve blocked by auto
  qed
qed

lemma snd_ParForAll_skip:
  assumes "\<And>i st. i \<in> set sched \<Longrightarrow> \<not> P i \<Longrightarrow> snd (f i st) = st"
  shows "snd (snd (ParForAll f sched (b, rs, st))) =
         snd (snd (ParForAll f (filter P sched) (b', rs', st)))"
  using assms
proof (induction sched arbitrary: b b' rs rs' st)
  case Nil
  then show ?case by simp
next
  case (Cons j sched)
  obtain resp st1 where step: "f j st = (resp, st1)" by (cases "f j st")
  have IH: "\<And>b b' rs rs' st. snd (snd (ParForAll f sched (b, rs, st))) =
              snd (snd (ParForAll f (filter P sched) (b', rs', st)))"
    using Cons.IH Cons.prems by simp
  show ?case
  proof (cases "P j")
    case True
    then show ?thesis using step IH by (cases resp) simp_all
  next
    case False
    then have "st1 = st" using Cons.prems [of j st] step by simp
    then show ?thesis using False step IH by (cases resp) simp_all
  qed
qed

lemma snd_run_batch:
  "snd (run_batch ext r d reqs sched envs st) =
   snd (snd (ParForAll (\<lambda>i. task ext r d (reqs ! i) (envs i)) sched
               (True, replicate (length reqs) zero_Response, st)))"
  by (simp add: run_batch_def Let_def split: prod.splits)

lemma fst_run_batch:
  "fst (run_batch ext r d reqs sched envs st) = Some rs \<longleftrightarrow>
   ParForAll (\<lambda>i. task ext r d (reqs ! i) (envs i)) sched
     (True, replicate (length reqs) zero_Response, st) =
   (True, rs, snd (run_batch ext r d reqs sched envs st))"
  by (auto simp: run_batch_def Let_def split: prod.splits if_splits)




text \<open>
  C6. A request whose method is not in the table of known methods gets the response
  with code -32601 and its own ID, and the task returns the state it was given: for every
  \<open>Allow\<close>, the rate limiter is as before, no envelope is made and nothing is sent to the
  validator. In a batch, the state after all tasks is the state after the tasks of the
  known-method requests alone.
\<close>

theorem unknown_method_skips_rate_limiter:
  assumes "Method req \<notin> set RPCs"
  shows "task ext r darknodeID req env st =
           (Some (errResponse (- 32601) (ID req) ''unsupported method'' None), st)
    \<and> Code (the (Error (errResponse (- 32601) (ID req) ''unsupported method'' None))) = - 32601
    \<and> rateLimiter (snd (task ext r darknodeID req env st)) = rateLimiter st
    \<and> (i < length reqs \<and> reqs ! i = req \<and> distinct sched \<and> i \<in> set sched
         \<and> fst (run_batch ext r darknodeID reqs sched envs st) = Some responses \<longrightarrow>
         responses ! i = errResponse (- 32601) (ID req) ''unsupported method'' None)
    \<and> snd (run_batch ext r darknodeID reqs sched envs st) =
        snd (run_batch ext r darknodeID reqs
               (filter (\<lambda>i. Method (reqs ! i) \<in> set RPCs) sched) envs st)"
proof -
  let ?f = "\<lambda>i. task ext r darknodeID (reqs ! i) (envs i)"
  have unknown: "\<And>q e s. Method q \<notin> set RPCs \<Longrightarrow>
      task ext r darknodeID q e s =
        (Some (errResponse (- 32601) (ID q) ''unsupported method'' None), s)"
    by (simp add: task_def ErrorCodeMethodNotFound_def)
  have t: "task ext r darknodeID req env st =
             (Some (errResponse (- 32601) (ID req) ''unsupported method'' None), st)"
    using assms by (rule unknown)
  have c: "Code (the (Error (errResponse (- 32601) (ID req) ''unsupported method'' None)))
             = - 32601"
    by (simp add: errResponse_def NewResponse_def NewError_def)
  have slot: "i < length reqs \<and> reqs ! i = req \<and> distinct sched \<and> i \<in> set sched
         \<and> fst (run_batch ext r darknodeID reqs sched envs st) = Some responses \<longrightarrow>
         responses ! i = errResponse (- 32601) (ID req) ''unsupported method'' None"
  proof (intro impI)
    assume a: "i < length reqs \<and> reqs ! i = req \<and> distinct sched \<and> i \<in> set sched
         \<and> fst (run_batch ext r darknodeID reqs sched envs st) = Some responses"
    then have P: "ParForAll ?f sched (True, replicate (length reqs) zero_Response, st) =
                    (True, responses, snd (run_batch ext r darknodeID reqs sched envs st))"
      using fst_run_batch by blast
    obtain s where
      "case fst (?f i s) of
         None \<Rightarrow> \<not> fst (ParForAll ?f sched (True, replicate (length reqs) zero_Response, st))
       | Some v \<Rightarrow>
           fst (snd (ParForAll ?f sched (True, replicate (length reqs) zero_Response, st))) ! i
             = v"
      using ParForAll_slot [of sched i "replicate (length reqs) zero_Response" ?f True st] a
      by auto
    then show "responses ! i = errResponse (- 32601) (ID req) ''unsupported method'' None"
      using a P unknown [OF assms] by simp
  qed
  have skip: "snd (run_batch ext r darknodeID reqs sched envs st) =
        snd (run_batch ext r darknodeID reqs
               (filter (\<lambda>i. Method (reqs ! i) \<in> set RPCs) sched) envs st)"
    unfolding snd_run_batch
    by (rule snd_ParForAll_skip) (simp add: unknown)
  show ?thesis using t c slot skip by simp
qed

theorem unknown_method_skips_rate_limiter_witness:
  "Method (Request ex_unknown) \<notin> set RPCs
   \<and> task ex_ext (ex_http ''[u,q]'') ''X'' (Request ex_unknown) (ex_envs 0) ex_state =
       (Some (errResponse (- 32601) (IdFloat 0x401C000000000000) ''unsupported method'' None),
        ex_state)"
proof -
  have 1: "Method (Request ex_unknown) \<notin> set RPCs"
    by (simp add: ex_unknown_def RPCs_def Method_defs)
  show ?thesis
    using 1 unknown_method_skips_rate_limiter [OF 1, of ex_ext "ex_http ''[u,q]''" "''X''"
        "ex_envs 0" ex_state 0 "[]" "[]" ex_envs]
    by (simp add: ex_unknown_def)
qed

text \<open>
  C7. A body that unmarshals into a list of requests is served as that batch: when the
  list is no longer than \<open>MaxBatchSize\<close>, what is written is made from one response
  per request of the list, slot \<open>i\<close> for request \<open>i\<close> (and nothing is written only when
  a task stays blocked); a longer list gets the single error response with code -32001.
  A body that does not unmarshal into a list, but into one request, is served as the
  batch of that one request: what is written is made from the one response for it. A
  body for which the decoding fails, or both unmarshallings fail, gets a single error
  response with code -32700 and ID 0, with the HTTP status 400, and the state is left as
  it was.
\<close>

theorem body_parsed_as_batch_or_single:
  "(Decode ext (Body r) = Some raw \<and> Unmarshal_requests ext raw = Some reqs
      \<and> int (length reqs) \<le> MaxBatchSize opts
      \<and> distinct sched \<and> set sched = {..<length reqs} \<longrightarrow>
      (case fst (handleFunc ext opts sched envs r st) of
         None \<Rightarrow>
           (\<exists>i<length reqs. Method (reqs ! i) \<in> set RPCs \<and> validator_ok (envs i)
               \<and> selected (envs i) = Blocked)
       | Some w \<Rightarrow>
           (\<exists>responses. length responses = length reqs \<and> written responses w
               \<and> (\<forall>i<length reqs. slot_holds ext (reqs ! i) (envs i) (responses ! i))))
      \<and> ((\<forall>i<length reqs. selected (envs i) \<noteq> Blocked) \<longrightarrow>
            fst (handleFunc ext opts sched envs r st) \<noteq> None))
   \<and> (Decode ext (Body r) = Some raw \<and> Unmarshal_requests ext raw = None
        \<and> Unmarshal_request ext raw = Some req \<and> 1 \<le> MaxBatchSize opts \<and> sched = [0] \<longrightarrow>
      (case fst (handleFunc ext opts sched envs r st) of
         None \<Rightarrow> Method req \<in> set RPCs \<and> validator_ok (envs 0) \<and> selected (envs 0) = Blocked
       | Some w \<Rightarrow> (\<exists>resp. slot_holds ext req (envs 0) resp \<and> written [resp] w))
      \<and> (selected (envs 0) \<noteq> Blocked \<longrightarrow> fst (handleFunc ext opts sched envs r st) \<noteq> None))
   \<and> (Decode ext (Body r) = Some raw
        \<and> (Unmarshal_requests ext raw = Some reqs
            \<or> (Unmarshal_requests ext raw = None \<and> Unmarshal_request ext raw = Some req
                \<and> reqs = [req]))
        \<and> MaxBatchSize opts < int (length reqs) \<longrightarrow>
      (\<exists>w. handleFunc ext opts sched envs r st = (Some w, st)
          \<and> body w = Single
               \<lparr>rVersion = ''2.0'', rID = IdNum 0, Result = None,
                Error = Some \<lparr>Code = - 32001,
                              Message = ''maximum batch size exceeded: maximum is ''
                                @ fmt_int (MaxBatchSize opts) @ '' but got ''
                                @ fmt_int (int (length reqs)),
                              Data = None\<rparr>\<rparr>))
   \<and> (Decode ext (Body r) = None
        \<or> (Decode ext (Body r) = Some raw \<and> Unmarshal_requests ext raw = None
            \<and> Unmarshal_request ext raw = None) \<longrightarrow>
      (\<exists>message. handleFunc ext opts sched envs r st =
         (Some \<lparr>content_type = ''application/json'', status = 400,
                body = Single \<lparr>rVersion = ''2.0'', rID = IdNum 0, Result = None,
                               Error = Some \<lparr>Code = - 32700, Message = message,
                                             Data = None\<rparr>\<rparr>\<rparr>, st)))"
proof -
  have batch:
    "(Decode ext (Body r) = Some raw \<and> Unmarshal_requests ext raw = Some reqs
      \<and> int (length reqs) \<le> MaxBatchSize opts
      \<and> distinct sched \<and> set sched = {..<length reqs} \<longrightarrow>
      (case fst (handleFunc ext opts sched envs r st) of
         None \<Rightarrow>
           (\<exists>i<length reqs. Method (reqs ! i) \<in> set RPCs \<and> validator_ok (envs i)
               \<and> selected (envs i) = Blocked)
       | Some w \<Rightarrow>
           (\<exists>responses. length responses = length reqs \<and> written responses w
               \<and> (\<forall>i<length reqs. slot_holds ext (reqs ! i) (envs i) (responses ! i))))
      \<and> ((\<forall>i<length reqs. selected (envs i) \<noteq> Blocked) \<longrightarrow>
            fst (handleFunc ext opts sched envs r st) \<noteq> None))"
  proof (rule impI)
  assume a: "Decode ext (Body r) = Some raw \<and> Unmarshal_requests ext raw = Some reqs
      \<and> int (length reqs) \<le> MaxBatchSize opts
      \<and> distinct sched \<and> set sched = {..<length reqs}"
  then have h: "handleFunc ext opts sched envs r st =
                  serve_batch ext opts r (query_id r) reqs sched envs st"
    by (simp add: handleFunc_def)
  have s: "int (length reqs) \<le> MaxBatchSize opts" "distinct sched"
    "set sched = {..<length reqs}"
    using a by simp_all
  show "(case fst (handleFunc ext opts sched envs r st) of
         None \<Rightarrow>
           (\<exists>i<length reqs. Method (reqs ! i) \<in> set RPCs \<and> validator_ok (envs i)
               \<and> selected (envs i) = Blocked)
       | Some w \<Rightarrow>
           (\<exists>responses. length responses = length reqs \<and> written responses w
               \<and> (\<forall>i<length reqs. slot_holds ext (reqs ! i) (envs i) (responses ! i))))
      \<and> ((\<forall>i<length reqs. selected (envs i) \<noteq> Blocked) \<longrightarrow>
            fst (handleFunc ext opts sched envs r st) \<noteq> None)"
    unfolding h
    by (rule serve_batch_slots [OF s])
  qed
  have single:
    "(Decode ext (Body r) = Some raw \<and> Unmarshal_requests ext raw = None
        \<and> Unmarshal_request ext raw = Some req \<and> 1 \<le> MaxBatchSize opts \<and> sched = [0] \<longrightarrow>
      (case fst (handleFunc ext opts sched envs r st) of
         None \<Rightarrow> Method req \<in> set RPCs \<and> validator_ok (envs 0) \<and> selected (envs 0) = Blocked
       | Some w \<Rightarrow> (\<exists>resp. slot_holds ext req (envs 0) resp \<and> written [resp] w))
      \<and> (selected (envs 0) \<noteq> Blocked \<longrightarrow> fst (handleFunc ext opts sched envs r st) \<noteq> None))"
  proof (rule impI)
  assume a: "Decode ext (Body r) = Some raw \<and> Unmarshal_requests ext raw = None
        \<and> Unmarshal_request ext raw = Some req \<and> 1 \<le> MaxBatchSize opts \<and> sched = [0]"
  then have h: "handleFunc ext opts sched envs r st =
                  serve_batch ext opts r (query_id r) [req] [0] envs st"
    by (simp add: handleFunc_def)
  have s: "int (length [req]) \<le> MaxBatchSize opts" "distinct [0 :: nat]"
    "set [0 :: nat] = {..<length [req]}"
    using a by auto
  note T = serve_batch_slots [OF s, where ext = ext and r = r and d = "query_id r"
      and envs = envs and st = st]
  have sb: "(case fst (serve_batch ext opts r (query_id r) [req] [0] envs st) of
         None \<Rightarrow> Method req \<in> set RPCs \<and> validator_ok (envs 0) \<and> selected (envs 0) = Blocked
       | Some w \<Rightarrow> (\<exists>resp. slot_holds ext req (envs 0) resp \<and> written [resp] w))
      \<and> (selected (envs 0) \<noteq> Blocked \<longrightarrow>
            fst (serve_batch ext opts r (query_id r) [req] [0] envs st) \<noteq> None)"
  proof (cases "fst (serve_batch ext opts r (query_id r) [req] [0] envs st)")
    case None
    then have "\<exists>i<length [req]. Method ([req] ! i) \<in> set RPCs \<and> validator_ok (envs i)
                 \<and> selected (envs i) = Blocked"
      using T by simp
    then have "Method req \<in> set RPCs \<and> validator_ok (envs 0) \<and> selected (envs 0) = Blocked"
      by auto
    then show ?thesis using None by simp
  next
    case (Some w)
    then obtain responses where l: "length responses = length [req]"
      and w: "written responses w"
      and sl: "\<forall>i<length [req]. slot_holds ext ([req] ! i) (envs i) (responses ! i)"
      using T by auto
    from l obtain resp where r: "responses = [resp]"
      by (cases responses) auto
    have "slot_holds ext req (envs 0) resp \<and> written [resp] w"
      using w sl r by simp
    then show ?thesis using Some by auto
  qed
  show "(case fst (handleFunc ext opts sched envs r st) of
         None \<Rightarrow> Method req \<in> set RPCs \<and> validator_ok (envs 0) \<and> selected (envs 0) = Blocked
       | Some w \<Rightarrow> (\<exists>resp. slot_holds ext req (envs 0) resp \<and> written [resp] w))
      \<and> (selected (envs 0) \<noteq> Blocked \<longrightarrow> fst (handleFunc ext opts sched envs r st) \<noteq> None)"
    unfolding h by (rule sb)
  qed
  have oversize:
    "(Decode ext (Body r) = Some raw
        \<and> (Unmarshal_requests ext raw = Some reqs
            \<or> (Unmarshal_requests ext raw = None \<and> Unmarshal_request ext raw = Some req
                \<and> reqs = [req]))
        \<and> MaxBatchSize opts < int (length reqs) \<longrightarrow>
      (\<exists>w. handleFunc ext opts sched envs r st = (Some w, st)
          \<and> body w = Single
               \<lparr>rVersion = ''2.0'', rID = IdNum 0, Result = None,
                Error = Some \<lparr>Code = - 32001,
                              Message = ''maximum batch size exceeded: maximum is ''
                                @ fmt_int (MaxBatchSize opts) @ '' but got ''
                                @ fmt_int (int (length reqs)),
                              Data = None\<rparr>\<rparr>))"
  proof (rule impI)
  assume a: "Decode ext (Body r) = Some raw
        \<and> (Unmarshal_requests ext raw = Some reqs
            \<or> (Unmarshal_requests ext raw = None \<and> Unmarshal_request ext raw = Some req
                \<and> reqs = [req]))
        \<and> MaxBatchSize opts < int (length reqs)"
  then have h: "handleFunc ext opts sched envs r st =
                  serve_batch ext opts r (query_id r) reqs sched envs st"
    by (auto simp: handleFunc_def)
  show "\<exists>w. handleFunc ext opts sched envs r st = (Some w, st)
          \<and> body w = Single
               \<lparr>rVersion = ''2.0'', rID = IdNum 0, Result = None,
                Error = Some \<lparr>Code = - 32001,
                              Message = ''maximum batch size exceeded: maximum is ''
                                @ fmt_int (MaxBatchSize opts) @ '' but got ''
                                @ fmt_int (int (length reqs)),
                              Data = None\<rparr>\<rparr>"
    unfolding h using a
    by (simp add: serve_batch_def Let_def writeResponses_def writeError_def errResponse_def
        NewResponse_def NewError_def ErrorCode_defs)
  qed
  have neither:
    "(Decode ext (Body r) = None
        \<or> (Decode ext (Body r) = Some raw \<and> Unmarshal_requests ext raw = None
            \<and> Unmarshal_request ext raw = None) \<longrightarrow>
      (\<exists>message. handleFunc ext opts sched envs r st =
         (Some \<lparr>content_type = ''application/json'', status = 400,
                body = Single \<lparr>rVersion = ''2.0'', rID = IdNum 0, Result = None,
                               Error = Some \<lparr>Code = - 32700, Message = message,
                                             Data = None\<rparr>\<rparr>\<rparr>, st)))"
  proof (rule impI)
  assume "Decode ext (Body r) = None
        \<or> (Decode ext (Body r) = Some raw \<and> Unmarshal_requests ext raw = None
            \<and> Unmarshal_request ext raw = None)"
  then show "\<exists>message. handleFunc ext opts sched envs r st =
         (Some \<lparr>content_type = ''application/json'', status = 400,
                body = Single \<lparr>rVersion = ''2.0'', rID = IdNum 0, Result = None,
                               Error = Some \<lparr>Code = - 32700, Message = message,
                                             Data = None\<rparr>\<rparr>\<rparr>, st)"
    by (auto simp: handleFunc_def writeResponses_def writeError_def errResponse_def
        NewResponse_def NewError_def ErrorCode_defs)
  qed
  show ?thesis using batch single oversize neither by (intro conjI)
qed

theorem body_parsed_as_batch_or_single_witness:
  "fst (handleFunc ex_ext ex_opts [1, 0] ex_envs (ex_http ex_body_batch) ex_state) \<noteq> None
   \<and> fst (handleFunc ex_ext ex_opts [0] ex_envs (ex_http ex_body_single) ex_state) \<noteq> None
   \<and> handleFunc ex_ext ex_opts [0] ex_envs (ex_http ex_body_single) ex_state =
       (Some \<lparr>content_type = ''application/json'', status = 200, body = Single ex_reply\<rparr>,
        \<lparr>rateLimiter = 0, allocator = 1,
         effects = [MakeChan 0 1, TaskSend (Msg (ex_query\<lparr>Responder := 0\<rparr>))]\<rparr>)
   \<and> (\<exists>message. handleFunc ex_ext ex_opts [] ex_envs (ex_http ''garbage'') ex_state =
         (Some \<lparr>content_type = ''application/json'', status = 400,
                body = Single \<lparr>rVersion = ''2.0'', rID = IdNum 0, Result = None,
                               Error = Some \<lparr>Code = - 32700, Message = message,
                                             Data = None\<rparr>\<rparr>\<rparr>, ex_state))
   \<and> (\<exists>message. handleFunc ex_ext ex_opts [] ex_envs (ex_http ''123'') ex_state =
         (Some \<lparr>content_type = ''application/json'', status = 400,
                body = Single \<lparr>rVersion = ''2.0'', rID = IdNum 0, Result = None,
                               Error = Some \<lparr>Code = - 32700, Message = message,
                                             Data = None\<rparr>\<rparr>\<rparr>, ex_state))"
proof -
  let ?reqs = "[Request ex_unknown, Request ex_query]"
  have dec: "Decode ex_ext (Body (ex_http ex_body_batch)) = Some ex_body_batch"
    "Decode ex_ext (Body (ex_http ex_body_single)) = Some ex_body_single"
    "Decode ex_ext (Body (ex_http ''garbage'')) = None"
    "Decode ex_ext (Body (ex_http ''123'')) = Some ''123''"
    by (simp_all add: ex_ext_def ex_http_def ex_Decode_def ex_body_batch_def
        ex_body_single_def)
  have un: "Unmarshal_requests ex_ext ex_body_batch = Some ?reqs"
    "Unmarshal_requests ex_ext ex_body_single = None"
    "Unmarshal_request ex_ext ex_body_single = Some (Request ex_query)"
    "Unmarshal_requests ex_ext ''123'' = None"
    "Unmarshal_request ex_ext ''123'' = None"
    by (simp_all add: ex_ext_def ex_Unmarshal_requests_def ex_Unmarshal_request_def
        ex_body_batch_def ex_body_single_def)
  have live: "\<forall>i<length ?reqs. selected (ex_envs i) \<noteq> Blocked" "selected (ex_envs 0) \<noteq> Blocked"
    by (simp_all add: ex_envs_def)
  have size: "int (length ?reqs) \<le> MaxBatchSize ex_opts" "1 \<le> MaxBatchSize ex_opts"
    by (simp_all add: ex_opts_def)
  have perm: "distinct [1, 0 :: nat]" "set [1, 0 :: nat] = {..<length ?reqs}"
    by auto
  have batch: "fst (handleFunc ex_ext ex_opts [1, 0] ex_envs (ex_http ex_body_batch) ex_state)
                 \<noteq> None"
    using body_parsed_as_batch_or_single [where ext = ex_ext and r = "ex_http ex_body_batch"
        and raw = ex_body_batch and reqs = ?reqs and opts = ex_opts and sched = "[1, 0]"
        and envs = ex_envs and st = ex_state, THEN conjunct1]
      dec(1) un(1) size(1) perm live(1)
    by blast
  have single: "fst (handleFunc ex_ext ex_opts [0] ex_envs (ex_http ex_body_single) ex_state)
                  \<noteq> None"
    using body_parsed_as_batch_or_single [where ext = ex_ext and r = "ex_http ex_body_single"
        and raw = ex_body_single and req = "Request ex_query" and opts = ex_opts
        and sched = "[0]" and envs = ex_envs and st = ex_state,
        THEN conjunct2, THEN conjunct1]
      dec(2) un(2,3) size(2) live(2)
    by blast
  have single_run: "handleFunc ex_ext ex_opts [0] ex_envs (ex_http ex_body_single) ex_state =
       (Some \<lparr>content_type = ''application/json'', status = 200, body = Single ex_reply\<rparr>,
        \<lparr>rateLimiter = 0, allocator = 1,
         effects = [MakeChan 0 1, TaskSend (Msg (ex_query\<lparr>Responder := 0\<rparr>))]\<rparr>)"
    by (simp add: handleFunc_def ex_Decode_def ex_Unmarshal_requests_def
        ex_Unmarshal_request_def ex_body_batch_def ex_body_single_def serve_batch_def
        ex_opts_def run_batch_def task_def ex_query_def RPCs_def Method_defs ex_ext_def
        ex_http_def ex_Allow_def ex_SplitHostPort_def ex_state_def ex_envs_def
        NewRequestWithResponder_def make_chan_def writeResponses_def ex_reply_def
        NewResponse_def)
  have garbage: "\<exists>message. handleFunc ex_ext ex_opts [] ex_envs (ex_http ''garbage'') ex_state =
         (Some \<lparr>content_type = ''application/json'', status = 400,
                body = Single \<lparr>rVersion = ''2.0'', rID = IdNum 0, Result = None,
                               Error = Some \<lparr>Code = - 32700, Message = message,
                                             Data = None\<rparr>\<rparr>\<rparr>, ex_state)"
    using body_parsed_as_batch_or_single [where ext = ex_ext and r = "ex_http ''garbage''"
        and opts = ex_opts and sched = "[]" and envs = ex_envs and st = ex_state,
        THEN conjunct2, THEN conjunct2, THEN conjunct2]
      dec(3)
    by blast
  have number: "\<exists>message. handleFunc ex_ext ex_opts [] ex_envs (ex_http ''123'') ex_state =
         (Some \<lparr>content_type = ''application/json'', status = 400,
                body = Single \<lparr>rVersion = ''2.0'', rID = IdNum 0, Result = None,
                               Error = Some \<lparr>Code = - 32700, Message = message,
                                             Data = None\<rparr>\<rparr>\<rparr>, ex_state)"
    using body_parsed_as_batch_or_single [where ext = ex_ext and r = "ex_http ''123''"
        and raw = "''123''" and opts = ex_opts and sched = "[]" and envs = ex_envs
        and st = ex_state, THEN conjunct2, THEN conjunct2, THEN conjunct2]
      dec(4) un(4,5)
    by blast
  show ?thesis using batch single single_run garbage number by (intro conjI)
qed

section \<open>Sends on a reply channel, stage by stage\<close>

lemma cacher_Handle_shape:
  assumes "cacher_Handle sum256 now cacher h (Msg msg) = Inr (effs, h')"
  shows "(\<exists>resp. effs = [ChanSend (Responder msg) resp] \<and> h' = h)
       \<or> (\<exists>g. effs = [MakeChan h 1,
                       TaskSend (Msg \<lparr>Request = Request msg, Responder = h,
                                     DarknodeID = DarknodeID msg\<rparr>),
                       Go g]
              \<and> awaits g = h \<and> g_msg g = msg \<and> h' = Suc h)"
  using assms
  by (auto simp: cacher_Handle_def Let_def make_chan_def split: sum.splits prod.splits if_splits)

lemma cacher_goroutine_shape:
  assumes "cacher_goroutine later cacher g resp = Inr (effs, cacher')"
  shows "effs = [ChanSend (Responder (g_msg g)) resp]"
  using assms by (auto simp: cacher_goroutine_def split: sum.splits)

lemma dispatcher_Handle_shape:
  assumes "dispatcher_Handle send arrival dispatcher (Msg m) = Inr effs"
  shows "\<exists>resp. effs = [ChanSend (Responder m) resp]"
  using assms
  by (auto simp: dispatcher_Handle_def dispatch_def Let_def split: sum.splits option.splits)

lemma pipeline_sends:
  "sends_on h (pipeline sum256 send arrival accepted now later cacher dispatcher req a h) \<le> 1"
proof (cases "cacher_Handle sum256 now cacher (Suc h)
                (Msg \<lparr>Request = req, Responder = h, DarknodeID = a\<rparr>)")
  case (Inl e)
  then show ?thesis
    by (simp add: pipeline_def NewRequestWithResponder_def make_chan_def sends_on_def)
next
  case (Inr p)
  obtain effs h2 where p: "p = (effs, h2)" by (cases p)
  let ?msg = "\<lparr>Request = req, Responder = h, DarknodeID = a\<rparr>"
  from cacher_Handle_shape [OF Inr [unfolded p]]
  consider (hit) resp where "effs = [ChanSend h resp]"
    | (miss) g where "effs = [MakeChan (Suc h) 1,
                       TaskSend (Msg \<lparr>Request = req, Responder = Suc h, DarknodeID = a\<rparr>), Go g]"
                     "awaits g = Suc h" "g_msg g = ?msg"
    by auto
  then show ?thesis
  proof cases
    case hit
    then show ?thesis using Inr p
      by (simp add: pipeline_def NewRequestWithResponder_def make_chan_def sends_on_def)
  next
    case miss
    let ?m' = "\<lparr>Request = req, Responder = Suc h, DarknodeID = a\<rparr>"
    let ?d = "dispatcher_stage send arrival accepted dispatcher (TaskSend (Msg ?m'))"
    have d: "?d = [] \<or> (\<exists>resp. ?d = [ChanSend (Suc h) resp])"
      using dispatcher_Handle_shape [of send arrival dispatcher ?m']
      by (auto split: sum.splits)
    have g: "goroutine_stage later cacher ?d (Go g) = []
             \<or> (\<exists>resp. goroutine_stage later cacher ?d (Go g) = [ChanSend h resp])"
      using cacher_goroutine_shape [of later cacher g] miss(3)
      by (auto split: option.splits sum.splits)
    show ?thesis using Inr p miss(1) d g
      by (auto simp: pipeline_def NewRequestWithResponder_def make_chan_def sends_on_def)
  qed
qed

lemma pipeline_sends_once:
  assumes "accepted" and "addrs dispatcher \<noteq> []" and "Method req \<in> set RPCs"
  shows "sends_on h (pipeline sum256 send arrival accepted now later cacher dispatcher req a h) = 1"
proof -
  let ?msg = "\<lparr>Request = req, Responder = h, DarknodeID = a\<rparr>"
  let ?m' = "\<lparr>Request = req, Responder = Suc h, DarknodeID = a\<rparr>"
  have "\<not> isl (cacher_Handle sum256 now cacher (Suc h) (Msg ?msg))"
    using assms(3)
    by (auto simp: isCachable_def Method_defs cacher_Handle_def Let_def RPCs_def make_chan_def
        split: prod.splits)
  then obtain effs h2 where
    H: "cacher_Handle sum256 now cacher (Suc h) (Msg ?msg) = Inr (effs, h2)"
    by (cases "cacher_Handle sum256 now cacher (Suc h) (Msg ?msg)") auto
  from cacher_Handle_shape [OF H]
  consider (hit) resp where "effs = [ChanSend h resp]"
    | (miss) g where "effs = [MakeChan (Suc h) 1, TaskSend (Msg ?m'), Go g]"
                     "awaits g = Suc h" "g_msg g = ?msg"
    by auto
  then show ?thesis
  proof cases
    case hit
    then show ?thesis using H
      by (simp add: pipeline_def NewRequestWithResponder_def make_chan_def sends_on_def)
  next
    case miss
    obtain t where t: "multiAddrs dispatcher (Method req) = Inr t"
      using assms(2) by (cases "addrs dispatcher") (simp_all add: multiAddrs_def)
    have "dispatcher_Handle send arrival dispatcher (Msg ?m') =
            Inr (dispatch send arrival dispatcher ?m' t)"
      using t by (simp add: dispatcher_Handle_def)
    then obtain resp where
      d: "dispatcher_stage send arrival accepted dispatcher (TaskSend (Msg ?m')) =
            [ChanSend (Suc h) resp]"
      using assms(1) dispatcher_Handle_shape [of send arrival dispatcher ?m'] by auto
    have g: "goroutine_stage later cacher [ChanSend (Suc h) resp] (Go g) = [ChanSend h resp]"
      using miss(2,3)
      by (simp add: cacher_goroutine_def cacher_insert_def kv_Insert_def)
    show ?thesis using H miss(1) d g
      by (simp add: pipeline_def NewRequestWithResponder_def make_chan_def sends_on_def)
  qed
qed

section \<open>Properties of the dispatcher\<close>

text \<open>
  C2, evaluated on the code. The dispatcher that \<open>New\<close> constructs has no addresses, and
  \<open>Handle\<close> on any envelope panics in \<open>multiAddrs\<close> with an index out of range: nothing
  is sent on the reply channel. Where the dispatcher has an address, the target list is
  that one address, never empty. With nothing to read from the channel of responses, the
  code after the loop sends the zero response, which has no error.
\<close>

theorem dispatcher_empty_targets:
  "dispatcher_Handle send arrival (New_Dispatcher t) (Msg msg) = Inl IndexOutOfRange
   \<and> multiAddrs (dispatcher\<lparr>addrs := a # rest\<rparr>) method = Inr [a]
   \<and> dispatch send [] dispatcher msg [] = [ChanSend (Responder msg) zero_Response]
   \<and> Error zero_Response = None"
  by (simp add: dispatcher_Handle_def multiAddrs_def New_Dispatcher_def dispatch_def
      backend_responses_def zero_Response_def)

text \<open>
  C9. The update of the first-response iterator returns \<open>done = true\<close> and its input,
  whatever the response and the flag. So the loop over the channel of responses stops at
  the first value, and the dispatcher sends on the reply channel what came back first:
  the response of the back-end whose call returned first, or the zero response when that
  call failed.
\<close>

theorem first_response_iterator:
  "update FirstResponseIterator res final = (True, res)
   \<and> update (responseIterator dispatcher method) res final = (True, res)
   \<and> range_responses (responseIterator dispatcher method) i n (res # others) = Some res
   \<and> dispatch send (j # arrival) dispatcher msg as =
       [ChanSend (Responder msg)
          (case send (timeout dispatcher) (as ! j) (Request msg) of
             None \<Rightarrow> zero_Response | Some resp \<Rightarrow> resp)]
   \<and> dispatcher_Handle send (0 # arrival) (dispatcher\<lparr>addrs := a # rest\<rparr>) (Msg msg) =
       Inr [ChanSend (Responder msg)
          (case send (timeout dispatcher) a (Request msg) of
             None \<Rightarrow> zero_Response | Some resp \<Rightarrow> resp)]"
  by (simp add: responseIterator_def NewFirstResponseIterator_def dispatch_def
      backend_responses_def dispatcher_Handle_def multiAddrs_def)

section \<open>The reply channel\<close>

text \<open>
  C5. The ingress makes the reply channel of an envelope with capacity 1. Over the run
  of the envelope through the cacher, the dispatcher and the cacher's goroutine there is
  at most one send on that channel, and exactly one when the method is known, the
  dispatcher's mailbox takes the forwarded envelope and the dispatcher has an address.
  Stage by stage: \<open>Cacher.Handle\<close>, when it returns, has either sent once on the
  envelope's channel and nothing else, or has sent nothing and forwarded the request on a
  fresh channel with one goroutine waiting on it; that goroutine, when it has inserted,
  sends once on the envelope's channel; \<open>Dispatcher.Handle\<close>, when it returns, has sent
  once on the channel of the envelope it was given.
\<close>

theorem reply_channel_written_once:
  "NewRequestWithResponder req a h =
     (\<lparr>Request = req, Responder = h, DarknodeID = a\<rparr>, [MakeChan h 1], Suc h)
   \<and> sends_on h (pipeline sum256 send arrival accepted now later cacher dispatcher req a h) \<le> 1
   \<and> (accepted \<and> addrs dispatcher \<noteq> [] \<and> Method req \<in> set RPCs \<longrightarrow>
        sends_on h (pipeline sum256 send arrival accepted now later cacher dispatcher req a h) = 1)
   \<and> (\<forall>effs h'. cacher_Handle sum256 now cacher h0 (Msg msg) = Inr (effs, h') \<longrightarrow>
        (\<exists>resp. effs = [ChanSend (Responder msg) resp] \<and> h' = h0)
        \<or> (\<exists>g. effs = [MakeChan h0 1,
                        TaskSend (Msg \<lparr>Request = Request msg, Responder = h0,
                                      DarknodeID = DarknodeID msg\<rparr>),
                        Go g]
               \<and> awaits g = h0 \<and> g_msg g = msg \<and> h' = Suc h0))
   \<and> (\<forall>effs cacher'. cacher_goroutine later cacher g resp = Inr (effs, cacher') \<longrightarrow>
        effs = [ChanSend (Responder (g_msg g)) resp])
   \<and> (\<forall>effs. dispatcher_Handle send arrival dispatcher (Msg m) = Inr effs \<longrightarrow>
        (\<exists>resp. effs = [ChanSend (Responder m) resp]))"
proof -
  have 1: "NewRequestWithResponder req a h =
     (\<lparr>Request = req, Responder = h, DarknodeID = a\<rparr>, [MakeChan h 1], Suc h)"
    by (simp add: NewRequestWithResponder_def make_chan_def)
  have 2: "sends_on h (pipeline sum256 send arrival accepted now later cacher dispatcher req a h)
             \<le> 1"
    by (rule pipeline_sends)
  have 3: "accepted \<and> addrs dispatcher \<noteq> [] \<and> Method req \<in> set RPCs \<longrightarrow>
        sends_on h (pipeline sum256 send arrival accepted now later cacher dispatcher req a h) = 1"
    using pipeline_sends_once by blast
  have 4: "\<forall>effs h'. cacher_Handle sum256 now cacher h0 (Msg msg) = Inr (effs, h') \<longrightarrow>
        (\<exists>resp. effs = [ChanSend (Responder msg) resp] \<and> h' = h0)
        \<or> (\<exists>g. effs = [MakeChan h0 1,
                        TaskSend (Msg \<lparr>Request = Request msg, Responder = h0,
                                      DarknodeID = DarknodeID msg\<rparr>),
                        Go g]
               \<and> awaits g = h0 \<and> g_msg g = msg \<and> h' = Suc h0)"
    using cacher_Handle_shape by blast
  have 5: "\<forall>effs cacher'. cacher_goroutine later cacher g resp = Inr (effs, cacher') \<longrightarrow>
        effs = [ChanSend (Responder (g_msg g)) resp]"
    using cacher_goroutine_shape by blast
  have 6: "\<forall>effs. dispatcher_Handle send arrival dispatcher (Msg m) = Inr effs \<longrightarrow>
        (\<exists>resp. effs = [ChanSend (Responder m) resp])"
    using dispatcher_Handle_shape by blast
  show ?thesis
    using 1 2 3 4 5 6 by (intro conjI)
qed

theorem reply_channel_written_once_witness:
  "sends_on 0 (pipeline pad32 ex_send [0] True 0 1 (New_Cacher 60) ex_dispatcher
                 (Request ex_query) ''X'' 0) = 1
   \<and> pipeline pad32 ex_send [0] True 0 1 (New_Cacher 60) ex_dispatcher (Request ex_query) ''X'' 0 =
       [MakeChan 0 1, MakeChan 1 1, TaskSend (Msg (ex_query\<lparr>Responder := 1\<rparr>)),
        Go \<lparr>awaits = 1, g_reqID = pad32 ''{}ren_queryBlock'', g_msg = ex_query\<rparr>,
        ChanSend 1 (NewResponse (IdFloat 0x4000000000000000) (Some ''/ip4/10.0.0.7'') None),
        ChanSend 0 (NewResponse (IdFloat 0x4000000000000000) (Some ''/ip4/10.0.0.7'') None)]"
proof -
  have run: "pipeline pad32 ex_send [0] True 0 1 (New_Cacher 60) ex_dispatcher
               (Request ex_query) ''X'' 0 =
       [MakeChan 0 1, MakeChan 1 1, TaskSend (Msg (ex_query\<lparr>Responder := 1\<rparr>)),
        Go \<lparr>awaits = 1, g_reqID = pad32 ''{}ren_queryBlock'', g_msg = ex_query\<rparr>,
        ChanSend 1 (NewResponse (IdFloat 0x4000000000000000) (Some ''/ip4/10.0.0.7'') None),
        ChanSend 0 (NewResponse (IdFloat 0x4000000000000000) (Some ''/ip4/10.0.0.7'') None)]"
    by (simp add: pipeline_def NewRequestWithResponder_def make_chan_def cacher_Handle_def
        request_ID_def hash_def MarshalJSON_def isCachable_def Method_defs cacher_get_def
        kv_Get_def New_Cacher_def NewTTLCache_def ex_query_def dispatcher_Handle_def
        multiAddrs_def ex_dispatcher_def dispatch_def responseIterator_def
        NewFirstResponseIterator_def backend_responses_def ex_send_def cacher_goroutine_def
        cacher_insert_def kv_Insert_def)
  have pre: "True \<and> addrs ex_dispatcher \<noteq> [] \<and> Method (Request ex_query) \<in> set RPCs"
    by (simp add: ex_dispatcher_def ex_query_def RPCs_def Method_defs)
  have once: "sends_on 0 (pipeline pad32 ex_send [0] True 0 1 (New_Cacher 60) ex_dispatcher
                 (Request ex_query) ''X'' 0) = 1"
    using pre reply_channel_written_once [where req = "Request ex_query" and a = "''X''"
        and h = 0 and ?sum256.0 = pad32 and send = ex_send and arrival = "[0]"
        and accepted = True and now = 0 and later = 1 and cacher = "New_Cacher 60"
        and dispatcher = ex_dispatcher]
    by blast
  show ?thesis
    using once run by (intro conjI)
qed

end
